theory Spec2Isabelle
  imports Main
begin

section \<open>Python values, exceptions and the upstream provider\<close>

text \<open>
  The payloads of the upstream provider are whatever \<^verbatim>\<open>response.json()\<close> returns: the
  source reads them with subscripts and never checks their shape, so the model keeps them
  as untyped values. \<open>JNull\<close> is Python's \<^verbatim>\<open>None\<close>; a \<open>JObj\<close> holds the items of a
  dict in insertion order. JSON numbers are restricted to integers (floating point is
  outside the model), and strings are byte strings.
\<close>

datatype json =
    JNull
  | JBool bool
  | JInt int
  | JStr string
  | JList "json list"
  | JObj "(string \<times> json) list"

text \<open>
  The exceptions the source can raise. \<open>HTTPException\<close> carries the status code and the
  detail message; \<open>ValidationError\<close> is pydantic's, raised by a model constructor.
\<close>

datatype exn =
    KeyError
  | TypeError
  | AttributeError
  | ValueError
  | ValidationError
  | TransportError
  | JSONDecodeError
  | HTTPException int string

text \<open>
  One answer of \<^verbatim>\<open>client.get(url)\<close>: the call raises (\<open>Fault\<close>: timeout, connection
  failure), or it returns a response with a status code and a body, where the body
  \<open>None\<close> stands for one on which \<^verbatim>\<open>response.json()\<close> raises.
\<close>

datatype reply = Fault | Reply int "json option"

text \<open>
  What the code runs against. \<open>http_get\<close> is the provider, asked by URL; it answers the
  same URL the same way for the length of one operation. \<open>lax_int\<close> and \<open>lax_bool\<close> are
  pydantic's conversions of a value that is not already an \<^verbatim>\<open>int\<close> (a \<^verbatim>\<open>bool\<close>) to
  one, \<open>None\<close> where pydantic rejects the value: they belong to the library, so the model
  takes them as given.
\<close>

record env =
  http_get :: "string \<Rightarrow> reply"
  lax_int :: "json \<Rightarrow> int option"
  lax_bool :: "json \<Rightarrow> bool option"

subsection \<open>Sequencing of raising computations\<close>

definition e_bind :: "exn + 'a \<Rightarrow> ('a \<Rightarrow> exn + 'b) \<Rightarrow> exn + 'b" where
  "e_bind m f = (case m of Inl e \<Rightarrow> Inl e | Inr x \<Rightarrow> f x)"

text \<open>A list comprehension whose element expression may raise: the first raise ends it.\<close>

fun e_map :: "('a \<Rightarrow> exn + 'b) \<Rightarrow> 'a list \<Rightarrow> exn + 'b list" where
  "e_map f [] = Inr []"
| "e_map f (x # xs) =
     (case f x of
        Inl e \<Rightarrow> Inl e
      | Inr y \<Rightarrow> (case e_map f xs of Inl e \<Rightarrow> Inl e | Inr ys \<Rightarrow> Inr (y # ys)))"

text \<open>A list comprehension with a condition that may raise.\<close>

fun e_filter :: "('a \<Rightarrow> exn + bool) \<Rightarrow> 'a list \<Rightarrow> exn + 'a list" where
  "e_filter c [] = Inr []"
| "e_filter c (x # xs) =
     (case c x of
        Inl e \<Rightarrow> Inl e
      | Inr b \<Rightarrow>
          (case e_filter c xs of
             Inl e \<Rightarrow> Inl e
           | Inr ys \<Rightarrow> Inr (if b then x # ys else ys)))"

subsection \<open>Python's operations on the values\<close>

text \<open>Truth value of an object, as \<^verbatim>\<open>if not pokemon_data\<close> tests it.\<close>

fun truthy :: "json \<Rightarrow> bool" where
  "truthy JNull = False"
| "truthy (JBool b) = b"
| "truthy (JInt n) = (n \<noteq> 0)"
| "truthy (JStr s) = (s \<noteq> [])"
| "truthy (JList xs) = (xs \<noteq> [])"
| "truthy (JObj kvs) = (kvs \<noteq> [])"

text \<open>\<^verbatim>\<open>obj[key]\<close> with a string key: only a dict accepts it.\<close>

fun py_getitem :: "json \<Rightarrow> string \<Rightarrow> exn + json" where
  "py_getitem (JObj kvs) k = (case map_of kvs k of None \<Rightarrow> Inl KeyError | Some v \<Rightarrow> Inr v)"
| "py_getitem v k = Inl TypeError"

text \<open>\<^verbatim>\<open>obj.get(key, default)\<close>: a method of dicts only.\<close>

fun py_get :: "json \<Rightarrow> string \<Rightarrow> json \<Rightarrow> exn + json" where
  "py_get (JObj kvs) k d = (case map_of kvs k of None \<Rightarrow> Inr d | Some v \<Rightarrow> Inr v)"
| "py_get v k d = Inl AttributeError"

text \<open>
  \<^verbatim>\<open>for x in obj\<close>: a list gives its elements, a dict its keys, a string its
  characters; nothing else is iterable.
\<close>

fun py_iter :: "json \<Rightarrow> exn + json list" where
  "py_iter (JList xs) = Inr xs"
| "py_iter (JObj kvs) = Inr (map (\<lambda>kv. JStr (fst kv)) kvs)"
| "py_iter (JStr s) = Inr (map (\<lambda>c. JStr [c]) s)"
| "py_iter v = Inl TypeError"

fun starts_with :: "string \<Rightarrow> string \<Rightarrow> bool" where
  "starts_with [] s = True"
| "starts_with (c # cs) [] = False"
| "starts_with (c # cs) (d # ds) = (c = d \<and> starts_with cs ds)"

fun substring_of :: "string \<Rightarrow> string \<Rightarrow> bool" where
  "substring_of k [] = (k = [])"
| "substring_of k (c # cs) = (starts_with k (c # cs) \<or> substring_of k cs)"

text \<open>
  \<^verbatim>\<open>key in obj\<close> with a string key: a key of a dict, an element of a list, a substring
  of a string; a \<^verbatim>\<open>TypeError\<close> on anything else.
\<close>

fun py_contains :: "json \<Rightarrow> string \<Rightarrow> exn + bool" where
  "py_contains (JObj kvs) k = Inr (k \<in> set (map fst kvs))"
| "py_contains (JList xs) k = Inr (JStr k \<in> set xs)"
| "py_contains (JStr s) k = Inr (substring_of k s)"
| "py_contains v k = Inl TypeError"

text \<open>\<^verbatim>\<open>str.lower()\<close> on the ASCII letters.\<close>

definition lower_char :: "char \<Rightarrow> char" where
  "lower_char c =
     (case map_of (zip ''ABCDEFGHIJKLMNOPQRSTUVWXYZ'' ''abcdefghijklmnopqrstuvwxyz'') c of
        None \<Rightarrow> c
      | Some l \<Rightarrow> l)"

definition lower :: "string \<Rightarrow> string" where
  "lower s = map lower_char s"

text \<open>\<^verbatim>\<open>s.replace(old, new)\<close> for one-character \<open>old\<close> and \<open>new\<close>.\<close>

definition replace :: "char \<Rightarrow> char \<Rightarrow> string \<Rightarrow> string" where
  "replace old new s = map (\<lambda>c. if c = old then new else c) s"

text \<open>The same as a method call on an arbitrary object: only a string has the method.\<close>

fun py_replace :: "json \<Rightarrow> char \<Rightarrow> char \<Rightarrow> exn + string" where
  "py_replace (JStr s) old new = Inr (replace old new s)"
| "py_replace v old new = Inl AttributeError"

subsection \<open>Dicts built by the code\<close>

text \<open>
  The \<^verbatim>\<open>stats\<close> dict is built by a comprehension from payload values, so its keys are
  arbitrary hashable values. Lists and dicts are unhashable; \<^verbatim>\<open>True\<close> and \<^verbatim>\<open>1\<close>
  (\<^verbatim>\<open>False\<close> and \<^verbatim>\<open>0\<close>) are the same key. A store to an existing key keeps the key's
  position and replaces its value.
\<close>

fun hashable :: "json \<Rightarrow> bool" where
  "hashable (JList xs) = False"
| "hashable (JObj kvs) = False"
| "hashable v = True"

fun key_norm :: "json \<Rightarrow> json" where
  "key_norm (JBool b) = JInt (if b then 1 else 0)"
| "key_norm v = v"

definition key_eq :: "json \<Rightarrow> json \<Rightarrow> bool" where
  "key_eq a b = (key_norm a = key_norm b)"

fun dict_set :: "(json \<times> json) list \<Rightarrow> json \<Rightarrow> json \<Rightarrow> (json \<times> json) list" where
  "dict_set [] k v = [(k, v)]"
| "dict_set ((k', v') # d) k v =
     (if key_eq k' k then (k', v) # d else (k', v') # dict_set d k v)"

fun dict_get :: "(json \<times> json) list \<Rightarrow> json \<Rightarrow> json \<Rightarrow> json" where
  "dict_get [] k dflt = dflt"
| "dict_get ((k', v') # d) k dflt = (if key_eq k' k then v' else dict_get d k dflt)"

section \<open>The entity record\<close>

record PokemonDetail =
  id' :: int
  name :: string
  types :: "string list"
  sprite_url :: string
  height :: int
  weight :: int
  abilities :: "string list"
  stats :: "(json \<times> json) list"
  is_legendary :: bool
  is_mythical :: bool
  description :: "string option"

text \<open>
  The validation pydantic runs in the constructor of \<^verbatim>\<open>PokemonDetail\<close>, field type by
  field type (pydantic 2, which \<^verbatim>\<open>fastapi_mcp\<close> depends on). A \<^verbatim>\<open>str\<close> field takes a
  string and nothing else, \<^verbatim>\<open>None\<close> included: \<^verbatim>\<open>sprite_url\<close> is declared \<^verbatim>\<open>str\<close>, not
  \<^verbatim>\<open>Optional[str]\<close>. An \<^verbatim>\<open>int\<close> or \<^verbatim>\<open>bool\<close> field takes a value of its type, and what the
  library's own conversions make of any other value. The fields \<^verbatim>\<open>abilities\<close>, \<^verbatim>\<open>stats\<close> and
  \<^verbatim>\<open>description\<close> receive a list of strings, a dict and an optional string that the
  hydrator has built itself, and pass. One failing field makes the constructor raise.
\<close>

fun validate_str :: "json \<Rightarrow> string option" where
  "validate_str (JStr s) = Some s"
| "validate_str v = None"

fun validate_int :: "env \<Rightarrow> json \<Rightarrow> int option" where
  "validate_int e (JInt n) = Some n"
| "validate_int e v = lax_int e v"

fun validate_bool :: "env \<Rightarrow> json \<Rightarrow> bool option" where
  "validate_bool e (JBool b) = Some b"
| "validate_bool e v = lax_bool e v"

fun validate_str_list :: "json list \<Rightarrow> string list option" where
  "validate_str_list [] = Some []"
| "validate_str_list (v # vs) =
     (case validate_str v of
        None \<Rightarrow> None
      | Some s \<Rightarrow> (case validate_str_list vs of None \<Rightarrow> None | Some ss \<Rightarrow> Some (s # ss)))"

definition make_PokemonDetail ::
  "env \<Rightarrow> json \<Rightarrow> json \<Rightarrow> json list \<Rightarrow> json \<Rightarrow> json \<Rightarrow> json \<Rightarrow> string list \<Rightarrow>
   (json \<times> json) list \<Rightarrow> json \<Rightarrow> json \<Rightarrow> string option \<Rightarrow> exn + PokemonDetail" where
  "make_PokemonDetail e a_id a_name a_types a_sprite_url a_height a_weight a_abilities
     a_stats a_is_legendary a_is_mythical a_description =
     (case (validate_int e a_id, validate_str a_name, validate_str_list a_types,
            validate_str a_sprite_url, validate_int e a_height, validate_int e a_weight,
            validate_bool e a_is_legendary, validate_bool e a_is_mythical) of
        (Some i, Some n, Some ts, Some u, Some h, Some w, Some l, Some m) \<Rightarrow>
          Inr \<lparr>id' = i, name = n, types = ts, sprite_url = u, height = h, weight = w,
               abilities = a_abilities, stats = a_stats, is_legendary = l,
               is_mythical = m, description = a_description\<rparr>
      | _ \<Rightarrow> Inl ValidationError)"

section \<open>Fetcher\<close>

definition POKEAPI_BASE_URL :: string where
  "POKEAPI_BASE_URL = ''https://pokeapi.co/api/v2''"

text \<open>
  Both fetchers wrap their whole body in \<^verbatim>\<open>try ... except Exception\<close> and return
  \<^verbatim>\<open>None\<close> from the handler. The key is an arbitrary object: \<^verbatim>\<open>name_or_id.lower()\<close>
  exists on strings only, and on any other object the attribute lookup raises inside the
  \<^verbatim>\<open>try\<close>, before a request is made.
\<close>

definition fetch :: "env \<Rightarrow> string \<Rightarrow> json \<Rightarrow> json" where
  "fetch e resource name_or_id =
     (case name_or_id of
        JStr s \<Rightarrow>
          (case http_get e (POKEAPI_BASE_URL @ resource @ lower s) of
             Fault \<Rightarrow> JNull
           | Reply status_code body \<Rightarrow>
               if status_code = 200 then (case body of None \<Rightarrow> JNull | Some j \<Rightarrow> j)
               else JNull)
      | _ \<Rightarrow> JNull)"

definition fetch_pokemon_data :: "env \<Rightarrow> json \<Rightarrow> json" where
  "fetch_pokemon_data e name_or_id = fetch e ''/pokemon/'' name_or_id"

definition fetch_pokemon_species :: "env \<Rightarrow> json \<Rightarrow> json" where
  "fetch_pokemon_species e name_or_id = fetch e ''/pokemon-species/'' name_or_id"

section \<open>Hydrator\<close>

definition extract_types :: "json \<Rightarrow> exn + json list" where
  "extract_types pokemon_data =
     e_bind (py_getitem pokemon_data ''types'') (\<lambda>tl.
     e_bind (py_iter tl) (\<lambda>ts.
     e_map (\<lambda>t. e_bind (py_getitem t ''type'') (\<lambda>ty. py_getitem ty ''name'')) ts))"

definition extract_abilities :: "json \<Rightarrow> exn + string list" where
  "extract_abilities pokemon_data =
     e_bind (py_getitem pokemon_data ''abilities'') (\<lambda>al.
     e_bind (py_iter al) (\<lambda>as.
     e_map (\<lambda>a. e_bind (py_getitem a ''ability'') (\<lambda>ab.
                 e_bind (py_getitem ab ''name'') (\<lambda>n.
                 py_replace n (CHR ''-'') (CHR '' '')))) as))"

fun stats_loop :: "(json \<times> json) list \<Rightarrow> json list \<Rightarrow> exn + (json \<times> json) list" where
  "stats_loop d [] = Inr d"
| "stats_loop d (s # ss) =
     e_bind (py_getitem s ''stat'') (\<lambda>st.
     e_bind (py_getitem st ''name'') (\<lambda>k.
     e_bind (py_getitem s ''base_stat'') (\<lambda>v.
     if hashable k then stats_loop (dict_set d k v) ss else Inl TypeError)))"

definition extract_stats :: "json \<Rightarrow> exn + (json \<times> json) list" where
  "extract_stats pokemon_data =
     e_bind (py_getitem pokemon_data ''stats'') (\<lambda>sl.
     e_bind (py_iter sl) (\<lambda>ss. stats_loop [] ss))"

definition is_english :: "json \<Rightarrow> exn + bool" where
  "is_english entry =
     e_bind (py_getitem entry ''language'') (\<lambda>lang.
     e_bind (py_getitem lang ''name'') (\<lambda>n. Inr (n = JStr ''en'')))"

definition extract_description :: "json \<Rightarrow> exn + string option" where
  "extract_description species_data =
     (if \<not> truthy species_data then Inr None
      else
        e_bind (py_contains species_data ''flavor_text_entries'') (\<lambda>present.
        if \<not> present then Inr None
        else
          e_bind (py_getitem species_data ''flavor_text_entries'') (\<lambda>fl.
          e_bind (py_iter fl) (\<lambda>entries.
          e_bind (e_filter is_english entries) (\<lambda>english_entries.
          (case english_entries of
             [] \<Rightarrow> Inr None
           | first # rest \<Rightarrow>
               e_bind (py_getitem first ''flavor_text'') (\<lambda>ft.
               e_bind (py_replace ft (CHR 0x0A) (CHR '' '')) (\<lambda>r.
               Inr (Some (replace (CHR 0x0C) (CHR '' '') r))))))))))"

definition species_flag :: "json \<Rightarrow> string \<Rightarrow> exn + json" where
  "species_flag species_data k =
     (if truthy species_data then py_get species_data k (JBool False) else Inr (JBool False))"

text \<open>
  \<^verbatim>\<open>get_pokemon_details\<close>. The result \<open>Inr None\<close> is the returned \<^verbatim>\<open>None\<close>,
  \<open>Inr (Some r)\<close> a returned record, \<open>Inl x\<close> an exception that leaves the function:
  nothing after the two fetches is inside a \<^verbatim>\<open>try\<close>.
\<close>

definition get_pokemon_details :: "env \<Rightarrow> json \<Rightarrow> exn + PokemonDetail option" where
  "get_pokemon_details e name_or_id =
     (let pokemon_data = fetch_pokemon_data e name_or_id in
      if \<not> truthy pokemon_data then Inr None
      else
        e_bind (py_getitem pokemon_data ''id'') (\<lambda>ident.
        let species_data = fetch_pokemon_species e ident in
        e_bind (extract_types pokemon_data) (\<lambda>tys.
        e_bind (extract_abilities pokemon_data) (\<lambda>abs.
        e_bind (extract_stats pokemon_data) (\<lambda>sts.
        e_bind (extract_description species_data) (\<lambda>descr.
        e_bind (py_getitem pokemon_data ''name'') (\<lambda>nm.
        e_bind (py_getitem pokemon_data ''sprites'') (\<lambda>sprites.
        e_bind (py_getitem sprites ''front_default'') (\<lambda>sprite.
        e_bind (py_getitem pokemon_data ''height'') (\<lambda>h.
        e_bind (py_getitem pokemon_data ''weight'') (\<lambda>w.
        e_bind (species_flag species_data ''is_legendary'') (\<lambda>leg.
        e_bind (species_flag species_data ''is_mythical'') (\<lambda>myth.
        e_bind (make_PokemonDetail e ident nm tys sprite h w abs sts leg myth descr)
          (\<lambda>r. Inr (Some r)))))))))))))))"

section \<open>Batch resolver\<close>

text \<open>
  \<^verbatim>\<open>asyncio.gather\<close> returns the results in the order of the awaitables it was given;
  when one of them raises, the exception leaves \<^verbatim>\<open>gather\<close> (the model reports the
  first one in list order).
\<close>

definition gather :: "(exn + 'a) list \<Rightarrow> exn + 'a list" where
  "gather tasks = e_map (\<lambda>t. t) tasks"

text \<open>
  \<^verbatim>\<open>[result for result in results if result]\<close>: a \<^verbatim>\<open>PokemonDetail\<close> is always true
  as a condition, so exactly the \<^verbatim>\<open>None\<close> results are dropped.
\<close>

fun present :: "'a option list \<Rightarrow> 'a list" where
  "present [] = []"
| "present (None # rs) = present rs"
| "present (Some r # rs) = r # present rs"

text \<open>
  The fan-out the three batch operations share: one \<^verbatim>\<open>get_pokemon_details\<close> per
  identifier, gathered, and the \<^verbatim>\<open>None\<close> results filtered out.
\<close>

definition resolve_many :: "env \<Rightarrow> json list \<Rightarrow> exn + PokemonDetail list" where
  "resolve_many e identifiers =
     e_bind (gather (map (get_pokemon_details e) identifiers)) (\<lambda>results.
     Inr (present results))"

section \<open>Comparator\<close>

text \<open>
  Python's \<^verbatim>\<open>==\<close> on payload values: numbers compare by value (\<^verbatim>\<open>bool\<close> is a
  number), lists element by element, dicts key by key whatever the order of their items,
  and values of different kinds are unequal.
\<close>

fun as_number :: "json \<Rightarrow> int option" where
  "as_number (JInt n) = Some n"
| "as_number (JBool b) = Some (if b then 1 else 0)"
| "as_number v = None"

fun py_eq :: "json \<Rightarrow> json \<Rightarrow> bool"
  and eq_elems :: "json list \<Rightarrow> json list \<Rightarrow> bool"
  and eq_items :: "(string \<times> json) list \<Rightarrow> (string \<times> json) list \<Rightarrow> bool" where
  "py_eq (JList xs) b = (case b of JList ys \<Rightarrow> eq_elems xs ys | _ \<Rightarrow> False)"
| "py_eq (JObj kvs) b =
     (case b of JObj kws \<Rightarrow> length kvs = length kws \<and> eq_items kvs kws | _ \<Rightarrow> False)"
| "py_eq (JStr s) b = (b = JStr s)"
| "py_eq JNull b = (b = JNull)"
| "py_eq (JInt n) b = (as_number b = Some n)"
| "py_eq (JBool c) b = (as_number b = Some (if c then 1 else 0))"
| "eq_elems [] ys = (ys = [])"
| "eq_elems (x # xs) ys =
     (case ys of [] \<Rightarrow> False | y # ys' \<Rightarrow> py_eq x y \<and> eq_elems xs ys')"
| "eq_items [] kws = True"
| "eq_items (kv # kvs) kws =
     (case map_of kws (fst kv) of
        None \<Rightarrow> False
      | Some w \<Rightarrow> py_eq (snd kv) w \<and> eq_items kvs kws)"

text \<open>
  Python's \<^verbatim>\<open>a > b\<close> (\<open>gt = True\<close>) and \<^verbatim>\<open>a < b\<close> (\<open>gt = False\<close>) on the values a
  statistic can hold. Two numbers and two strings are ordered, strings by code point; two
  lists are ordered by their first unequal elements, or by length when one is a prefix of
  the other; any other pair raises \<^verbatim>\<open>TypeError\<close>.
\<close>

fun str_lt :: "string \<Rightarrow> string \<Rightarrow> bool" where
  "str_lt [] [] = False"
| "str_lt [] (d # ds) = True"
| "str_lt (c # cs) [] = False"
| "str_lt (c # cs) (d # ds) =
     ((of_char c :: nat) < of_char d \<or> (c = d \<and> str_lt cs ds))"

fun py_cmp :: "bool \<Rightarrow> json \<Rightarrow> json \<Rightarrow> exn + bool"
  and cmp_elems :: "bool \<Rightarrow> json list \<Rightarrow> json list \<Rightarrow> exn + bool" where
  "py_cmp gt (JList xs) b = (case b of JList ys \<Rightarrow> cmp_elems gt xs ys | _ \<Rightarrow> Inl TypeError)"
| "py_cmp gt (JStr s) b =
     (case b of
        JStr t \<Rightarrow> Inr (if gt then str_lt t s else str_lt s t)
      | _ \<Rightarrow> Inl TypeError)"
| "py_cmp gt (JInt n) b =
     (case as_number b of
        Some y \<Rightarrow> Inr (if gt then y < n else n < y)
      | None \<Rightarrow> Inl TypeError)"
| "py_cmp gt (JBool c) b =
     (case as_number b of
        Some y \<Rightarrow> Inr (if gt then y < (if c then 1 else 0) else (if c then 1 else 0) < y)
      | None \<Rightarrow> Inl TypeError)"
| "py_cmp gt JNull b = Inl TypeError"
| "py_cmp gt (JObj kvs) b = Inl TypeError"
| "cmp_elems gt [] ys = Inr (\<not> gt \<and> ys \<noteq> [])"
| "cmp_elems gt (x # xs) ys =
     (case ys of
        [] \<Rightarrow> Inr gt
      | y # ys' \<Rightarrow> if py_eq x y then cmp_elems gt xs ys' else py_cmp gt x y)"

definition py_gt :: "json \<Rightarrow> json \<Rightarrow> exn + bool" where
  "py_gt a b = py_cmp True a b"

definition py_lt :: "json \<Rightarrow> json \<Rightarrow> exn + bool" where
  "py_lt a b = py_cmp False a b"

text \<open>
  \<^verbatim>\<open>max(items, key=...)\<close> and \<^verbatim>\<open>min(items, key=...)\<close>: one pass that keeps the
  current best and replaces it only when the next item's key is strictly greater
  (strictly less).
\<close>

fun max_loop :: "('a \<Rightarrow> json) \<Rightarrow> 'a \<Rightarrow> 'a list \<Rightarrow> exn + 'a" where
  "max_loop key best [] = Inr best"
| "max_loop key best (x # xs) =
     e_bind (py_gt (key x) (key best)) (\<lambda>b. max_loop key (if b then x else best) xs)"

fun min_loop :: "('a \<Rightarrow> json) \<Rightarrow> 'a \<Rightarrow> 'a list \<Rightarrow> exn + 'a" where
  "min_loop key best [] = Inr best"
| "min_loop key best (x # xs) =
     e_bind (py_lt (key x) (key best)) (\<lambda>b. min_loop key (if b then x else best) xs)"

definition py_max :: "('a \<Rightarrow> json) \<Rightarrow> 'a list \<Rightarrow> exn + 'a" where
  "py_max key items = (case items of [] \<Rightarrow> Inl ValueError | x # xs \<Rightarrow> max_loop key x xs)"

definition py_min :: "('a \<Rightarrow> json) \<Rightarrow> 'a list \<Rightarrow> exn + 'a" where
  "py_min key items = (case items of [] \<Rightarrow> Inl ValueError | x # xs \<Rightarrow> min_loop key x xs)"

record 'v extremes =
  highest :: "string \<times> 'v"
  lowest :: "string \<times> 'v"

text \<open>
  The \<^verbatim>\<open>comparison\<close> dict, a field per key. \<open>cmp_stats\<close> lists the statistics in the
  order the loop stores them; \<open>cmp_types\<close> is keyed by the elements of a set, whose
  order Python does not fix, and is a map.
\<close>

record Comparison =
  cmp_stats :: "(string \<times> json extremes) list"
  cmp_types :: "string \<Rightarrow> string list option"
  cmp_height :: "int extremes"
  cmp_weight :: "int extremes"

record ComparisonResult =
  pokemon :: "PokemonDetail list"
  comparison :: Comparison

definition STAT_NAMES :: "string list" where
  "STAT_NAMES = [''hp'', ''attack'', ''defense'', ''special-attack'', ''special-defense'', ''speed'']"

definition stat_pairs :: "PokemonDetail list \<Rightarrow> string \<Rightarrow> (string \<times> json) list" where
  "stat_pairs pokemon_list stat =
     map (\<lambda>p. (name p, dict_get (stats p) (JStr stat) (JInt 0))) pokemon_list"

definition compare_stat :: "PokemonDetail list \<Rightarrow> string \<Rightarrow> exn + (string \<times> json extremes)" where
  "compare_stat pokemon_list stat =
     e_bind (py_max snd (stat_pairs pokemon_list stat)) (\<lambda>hi.
     e_bind (py_min snd (stat_pairs pokemon_list stat)) (\<lambda>lo.
     Inr (stat, \<lparr>highest = hi, lowest = lo\<rparr>)))"

definition compare_attribute ::
  "(PokemonDetail \<Rightarrow> int) \<Rightarrow> PokemonDetail list \<Rightarrow> exn + int extremes" where
  "compare_attribute attr pokemon_list =
     e_bind (py_max (\<lambda>x. JInt (snd x)) (map (\<lambda>p. (name p, attr p)) pokemon_list)) (\<lambda>hi.
     e_bind (py_min (\<lambda>x. JInt (snd x)) (map (\<lambda>p. (name p, attr p)) pokemon_list)) (\<lambda>lo.
     Inr \<lparr>highest = hi, lowest = lo\<rparr>))"

definition compare_types :: "PokemonDetail list \<Rightarrow> string \<Rightarrow> string list option" where
  "compare_types pokemon_list type_name =
     (if type_name \<in> set (concat (map types pokemon_list))
      then Some (map name (filter (\<lambda>p. type_name \<in> set (types p)) pokemon_list))
      else None)"

text \<open>The part of \<^verbatim>\<open>compare_pokemon\<close> that fills the \<^verbatim>\<open>comparison\<close> dict.\<close>

definition build_comparison :: "PokemonDetail list \<Rightarrow> exn + Comparison" where
  "build_comparison pokemon_list =
     e_bind (e_map (compare_stat pokemon_list) STAT_NAMES) (\<lambda>sts.
     e_bind (compare_attribute height pokemon_list) (\<lambda>hs.
     e_bind (compare_attribute weight pokemon_list) (\<lambda>ws.
     Inr \<lparr>cmp_stats = sts, cmp_types = compare_types pokemon_list,
          cmp_height = hs, cmp_weight = ws\<rparr>)))"

definition compare_pokemon :: "env \<Rightarrow> string list \<Rightarrow> exn + ComparisonResult" where
  "compare_pokemon e pokemon_names =
     (if length pokemon_names < 2
      then Inl (HTTPException 400 ''Please provide at least 2 Pokemon to compare'')
      else if length pokemon_names > 6
      then Inl (HTTPException 400 ''You can compare a maximum of 6 Pokemon'')
      else
        e_bind (resolve_many e (map JStr pokemon_names)) (\<lambda>pokemon_list.
        if pokemon_list = []
        then Inl (HTTPException 404 ''None of the requested Pokemon were found'')
        else
          e_bind (build_comparison pokemon_list) (\<lambda>c.
          Inr \<lparr>pokemon = pokemon_list, comparison = c\<rparr>)))"

section \<open>Named-group directory\<close>

definition FAMOUS_TRAINERS :: "(string \<times> string list) list" where
  "FAMOUS_TRAINERS =
     [(''ash'', [''pikachu'', ''charizard'', ''squirtle'', ''bulbasaur'', ''greninja'',
                 ''infernape'', ''sceptile'', ''lycanroc'', ''dragonite'', ''gengar'']),
      (''misty'', [''starmie'', ''staryu'', ''goldeen'', ''psyduck'', ''togepi'', ''gyarados'']),
      (''brock'', [''onix'', ''geodude'', ''vulpix'', ''crobat'', ''sudowoodo'', ''steelix'']),
      (''gary'', [''blastoise'', ''umbreon'', ''electivire'', ''arcanine'', ''nidoking'', ''scizor'']),
      (''lance'', [''dragonite'', ''gyarados'', ''aerodactyl'', ''charizard'', ''tyranitar'']),
      (''cynthia'', [''garchomp'', ''spiritomb'', ''milotic'', ''roserade'', ''togekiss'', ''lucario''])]"

record region_info =
  generation :: string
  pokedex :: string

definition POKEMON_REGIONS :: "(string \<times> region_info) list" where
  "POKEMON_REGIONS =
     [(''kanto'', \<lparr>generation = ''generation-i'', pokedex = ''kanto''\<rparr>),
      (''johto'', \<lparr>generation = ''generation-ii'', pokedex = ''original-johto''\<rparr>),
      (''hoenn'', \<lparr>generation = ''generation-iii'', pokedex = ''hoenn''\<rparr>),
      (''sinnoh'', \<lparr>generation = ''generation-iv'', pokedex = ''original-sinnoh''\<rparr>),
      (''unova'', \<lparr>generation = ''generation-v'', pokedex = ''original-unova''\<rparr>),
      (''kalos'', \<lparr>generation = ''generation-vi'', pokedex = ''kalos-central''\<rparr>),
      (''alola'', \<lparr>generation = ''generation-vii'', pokedex = ''original-alola''\<rparr>),
      (''galar'', \<lparr>generation = ''generation-viii'', pokedex = ''galar''\<rparr>)]"

definition get_trainer_pokemon :: "env \<Rightarrow> string \<Rightarrow> exn + PokemonDetail list" where
  "get_trainer_pokemon e trainer_name =
     (let trainer = lower trainer_name in
      case map_of FAMOUS_TRAINERS trainer of
        None \<Rightarrow> Inl (HTTPException 404 (''Trainer '' @ trainer @ '' not found''))
      | Some pokemon_names \<Rightarrow> resolve_many e (map JStr pokemon_names))"

text \<open>
  \<^verbatim>\<open>xs[start:stop]\<close>: a negative bound counts from the end, and both bounds are
  clipped to the length. Lists and strings can be sliced; on any other object the
  subscript raises.
\<close>

definition clip_index :: "int \<Rightarrow> nat \<Rightarrow> nat" where
  "clip_index i n =
     (if i < 0 then (if i + int n < 0 then 0 else nat (i + int n))
      else if int n < i then n else nat i)"

definition slice :: "'a list \<Rightarrow> int \<Rightarrow> int \<Rightarrow> 'a list" where
  "slice xs start stop =
     (let a = clip_index start (length xs); b = clip_index stop (length xs)
      in take (b - a) (drop a xs))"

fun py_slice :: "json \<Rightarrow> int \<Rightarrow> int \<Rightarrow> exn + json" where
  "py_slice (JList xs) start stop = Inr (JList (slice xs start stop))"
| "py_slice (JStr s) start stop = Inr (JStr (slice s start stop))"
| "py_slice v start stop = Inl TypeError"

text \<open>
  \<^verbatim>\<open>get_region_pokemon\<close>. The request for the pokedex is outside any \<^verbatim>\<open>try\<close>: a
  transport fault or an unreadable body leaves the function as the exception it is.
\<close>

definition get_region_pokemon :: "env \<Rightarrow> string \<Rightarrow> int \<Rightarrow> int \<Rightarrow> exn + PokemonDetail list" where
  "get_region_pokemon e region_name limit offset =
     (let region = lower region_name in
      case map_of POKEMON_REGIONS region of
        None \<Rightarrow> Inl (HTTPException 404 (''Region '' @ region @ '' not found''))
      | Some info \<Rightarrow>
          (case http_get e (POKEAPI_BASE_URL @ ''/pokedex/'' @ pokedex info) of
             Fault \<Rightarrow> Inl TransportError
           | Reply status_code body \<Rightarrow>
               if status_code \<noteq> 200
               then Inl (HTTPException 500 ''Failed to fetch region data'')
               else
                 (case body of
                    None \<Rightarrow> Inl JSONDecodeError
                  | Some pokedex_data \<Rightarrow>
                      e_bind (py_getitem pokedex_data ''pokemon_entries'') (\<lambda>pokemon_entries.
                      e_bind (py_slice pokemon_entries offset (offset + limit)) (\<lambda>paginated.
                      e_bind (py_iter paginated) (\<lambda>entries.
                      e_bind (e_map (\<lambda>entry.
                                 e_bind (py_getitem entry ''pokemon_species'') (\<lambda>sp.
                                 py_getitem sp ''name'')) entries) (\<lambda>names.
                      resolve_many e names)))))))"

section \<open>Team store\<close>

text \<open>
  \<^verbatim>\<open>POKEMON_TEAMS\<close>, the module-level dict, passed in and returned. The functions
  \<open>get_team\<close>, \<open>add_to_team\<close> and \<open>remove_from_team\<close> give what one call does when no
  other request touches the dict before it ends; what requests do to one another is the
  subject of the relation \<open>running\<close> below.
\<close>

type_synonym store = "string \<Rightarrow> PokemonDetail list option"

record TeamResponse =
  user_id :: string
  team :: "PokemonDetail list"
  team_size :: int

definition team_response :: "string \<Rightarrow> PokemonDetail list \<Rightarrow> TeamResponse" where
  "team_response uid t = \<lparr>user_id = uid, team = t, team_size = int (length t)\<rparr>"

definition get_team :: "store \<Rightarrow> string \<Rightarrow> TeamResponse" where
  "get_team s uid =
     (case s uid of
        None \<Rightarrow> \<lparr>user_id = uid, team = [], team_size = 0\<rparr>
      | Some t \<Rightarrow>
          if t = [] then \<lparr>user_id = uid, team = [], team_size = 0\<rparr>
          else team_response uid t)"

definition add_to_team ::
  "env \<Rightarrow> store \<Rightarrow> string \<Rightarrow> string \<Rightarrow> (exn + TeamResponse) \<times> store" where
  "add_to_team e s uid requested =
     (let t = (case s uid of None \<Rightarrow> [] | Some t \<Rightarrow> t);
          s1 = s(uid \<mapsto> t)
      in
        if length t \<ge> 6
        then (Inl (HTTPException 400
                ''Team is already full (maximum 6 Pokemon). Remove a Pokemon before adding a new one.''),
              s1)
        else if lower requested \<in> set (map name t)
        then (Inl (HTTPException 400 (''Pokemon '' @ requested @ '' is already in your team'')), s1)
        else
          (case get_pokemon_details e (JStr requested) of
             Inl x \<Rightarrow> (Inl x, s1)
           | Inr None \<Rightarrow> (Inl (HTTPException 404 (''Pokemon '' @ requested @ '' not found'')), s1)
           | Inr (Some p) \<Rightarrow> (Inr (team_response uid (t @ [p])), s1(uid \<mapsto> t @ [p]))))"

text \<open>\<^verbatim>\<open>pop(i)\<close> at the first index whose member has the name; \<open>None\<close> when the loop ends.\<close>

fun pop_first :: "string \<Rightarrow> PokemonDetail list \<Rightarrow> PokemonDetail list option" where
  "pop_first n [] = None"
| "pop_first n (p # ps) =
     (if lower (name p) = n then Some ps
      else (case pop_first n ps of None \<Rightarrow> None | Some qs \<Rightarrow> Some (p # qs)))"

definition no_team :: "string \<Rightarrow> exn" where
  "no_team uid = HTTPException 404 (''User '' @ uid @ '' doesn'' @ [CHR 0x27] @ ''t have a team yet'')"

definition remove_from_team ::
  "store \<Rightarrow> string \<Rightarrow> string \<Rightarrow> (exn + TeamResponse) \<times> store" where
  "remove_from_team s uid requested =
     (case s uid of
        None \<Rightarrow> (Inl (no_team uid), s)
      | Some t \<Rightarrow>
          if t = [] then (Inl (no_team uid), s)
          else
            (let n = lower requested in
             case pop_first n t of
               Some t' \<Rightarrow> (Inr (team_response uid t'), s(uid \<mapsto> t'))
             | None \<Rightarrow> (Inl (HTTPException 404 (''Pokemon '' @ n @ '' not found in your team'')), s)))"

text \<open>
  \<^verbatim>\<open>add_to_team\<close> suspends once, at \<^verbatim>\<open>await get_pokemon_details(...)\<close>, and the event
  loop serves other requests in the meantime. The part before the await creates the
  user's list and makes the two checks; the part after it tests the hydrator's result and
  appends to \<^verbatim>\<open>POKEMON_TEAMS[user_id]\<close> as the dict then is, without a second check.
  The subscript raises \<open>KeyError\<close> if the key is gone (nothing in the code deletes a key).
\<close>

definition add_check :: "store \<Rightarrow> string \<Rightarrow> string \<Rightarrow> exn option \<times> store" where
  "add_check s uid requested =
     (let t = (case s uid of None \<Rightarrow> [] | Some t \<Rightarrow> t);
          s1 = s(uid \<mapsto> t)
      in
        if length t \<ge> 6
        then (Some (HTTPException 400
                ''Team is already full (maximum 6 Pokemon). Remove a Pokemon before adding a new one.''),
              s1)
        else if lower requested \<in> set (map name t)
        then (Some (HTTPException 400 (''Pokemon '' @ requested @ '' is already in your team'')), s1)
        else (None, s1))"

definition add_resume ::
  "env \<Rightarrow> store \<Rightarrow> string \<Rightarrow> string \<Rightarrow> (exn + TeamResponse) \<times> store" where
  "add_resume e s uid requested =
     (case get_pokemon_details e (JStr requested) of
        Inl x \<Rightarrow> (Inl x, s)
      | Inr None \<Rightarrow> (Inl (HTTPException 404 (''Pokemon '' @ requested @ '' not found'')), s)
      | Inr (Some p) \<Rightarrow>
          (case s uid of
             None \<Rightarrow> (Inl KeyError, s)
           | Some t \<Rightarrow> (Inr (team_response uid (t @ [p])), s(uid \<mapsto> t @ [p]))))"

text \<open>
  The team operations as requests; \<open>handle\<close> is the dict after a request that ran from
  its start to its end with no other request in between.
\<close>

datatype request =
    GetTeam string
  | AddToTeam string string
  | RemoveFromTeam string string

fun handle :: "env \<Rightarrow> store \<Rightarrow> request \<Rightarrow> store" where
  "handle e s (GetTeam uid) = s"
| "handle e s (AddToTeam uid requested) = snd (add_to_team e s uid requested)"
| "handle e s (RemoveFromTeam uid requested) = snd (remove_from_team s uid requested)"

text \<open>
  The server at work: \<open>running s ps\<close> says that the dict can be \<open>s\<close> while the adds \<open>ps\<close>
  (user and requested name) have passed their checks and await the hydrator. A removal
  has no await and is one step, as is an add that a check refuses; an add that passes its
  checks is suspended, and any suspended add may be the next to resume, against the
  upstream of that moment. \<open>get_team\<close> changes nothing and has no step. A store is
  reachable when the server can have it.
\<close>

inductive running :: "store \<Rightarrow> (string \<times> string) list \<Rightarrow> bool" where
  start: "running Map.empty []"
| removed: "running s ps \<Longrightarrow> running (snd (remove_from_team s uid requested)) ps"
| refused: "running s ps \<Longrightarrow> add_check s uid requested = (Some x, s1) \<Longrightarrow> running s1 ps"
| suspended:
    "running s ps \<Longrightarrow> add_check s uid requested = (None, s1) \<Longrightarrow>
     running s1 ((uid, requested) # ps)"
| resumed:
    "running s ps \<Longrightarrow> (uid, requested) \<in> set ps \<Longrightarrow>
     running (snd (add_resume e s uid requested)) (remove1 (uid, requested) ps)"

definition reachable :: "store \<Rightarrow> bool" where
  "reachable s = (\<exists>ps. running s ps)"

text \<open>The team a user sees: \<^verbatim>\<open>get_team\<close> shows no team and an empty team alike.\<close>

definition members :: "store \<Rightarrow> string \<Rightarrow> PokemonDetail list" where
  "members s uid = (case s uid of None \<Rightarrow> [] | Some t \<Rightarrow> t)"

section \<open>Properties stated by the specification\<close>

text \<open>
  What one identifier resolves to, for the batch resolver's contract: the record when the
  hydrator returns one, nothing when it returns \<^verbatim>\<open>None\<close>.
\<close>

definition resolved :: "env \<Rightarrow> json \<Rightarrow> PokemonDetail option" where
  "resolved e identifier =
     (case get_pokemon_details e identifier of Inr (Some r) \<Rightarrow> Some r | _ \<Rightarrow> None)"

text \<open>
  The comparator's contract is stated for records whose statistics are integers, as the
  data model of the specification has them. The value of a statistic is read off the
  record itself: the integer stored in \<open>stats\<close> under the name of the statistic, and 0
  for a record that has no entry under that name.
\<close>

definition integer_stats :: "PokemonDetail \<Rightarrow> bool" where
  "integer_stats p = list_all (\<lambda>kv. case snd kv of JInt n \<Rightarrow> True | _ \<Rightarrow> False) (stats p)"

definition stat_value :: "PokemonDetail \<Rightarrow> string \<Rightarrow> int" where
  "stat_value p stat = (case map_of (stats p) (JStr stat) of Some (JInt n) \<Rightarrow> n | _ \<Rightarrow> 0)"

text \<open>The first record, in input order, whose value is \<open>m\<close>.\<close>

definition first_attaining ::
  "(PokemonDetail \<Rightarrow> int) \<Rightarrow> int \<Rightarrow> PokemonDetail list \<Rightarrow> PokemonDetail option" where
  "first_attaining v m ps = find (\<lambda>p. v p = m) ps"


text \<open>The size cap of the team store: no stored team is longer than 6.\<close>

definition capped :: "store \<Rightarrow> bool" where
  "capped s = (\<forall>uid t. s uid = Some t \<longrightarrow> length t \<le> 6)"

section \<open>A sample upstream\<close>

text \<open>
  A small provider to run the operations against: core payloads of the provider's shape
  (cut down to the fields the code reads), one species payload, and a status 404 for every
  other URL. The entity 25 answers to its name and to its number, as the provider's core
  endpoint does; \<open>missingno\<close> has a null sprite reference.
\<close>

definition core_payload :: "int \<Rightarrow> string \<Rightarrow> int \<Rightarrow> json \<Rightarrow> json" where
  "core_payload i n speed sprite =
     JObj [(''id'', JInt i), (''name'', JStr n),
           (''types'', JList [JObj [(''slot'', JInt 1), (''type'', JObj [(''name'', JStr ''normal'')])]]),
           (''abilities'', JList [JObj [(''ability'', JObj [(''name'', JStr ''run-away'')])]]),
           (''stats'', JList [JObj [(''base_stat'', JInt speed),
                                    (''stat'', JObj [(''name'', JStr ''speed'')])]]),
           (''sprites'', JObj [(''front_default'', sprite)]),
           (''height'', JInt 4), (''weight'', JInt 60)]"

definition mewtwo_species :: json where
  "mewtwo_species =
     JObj [(''is_legendary'', JBool True), (''is_mythical'', JBool False),
           (''flavor_text_entries'',
              JList [JObj [(''flavor_text'', JStr ''Un Pokemon cree par un savant.''),
                           (''language'', JObj [(''name'', JStr ''fr'')])],
                     JObj [(''flavor_text'',
                              JStr (''It was created by'' @ [CHR 0x0A] @ ''a scientist.'')),
                           (''language'', JObj [(''name'', JStr ''en'')])]])]"

definition sample_replies :: "(string \<times> reply) list" where
  "sample_replies =
     [(''https://pokeapi.co/api/v2/pokemon/pikachu'',
         Reply 200 (Some (core_payload 25 ''pikachu'' 90 (JStr ''25.png'')))),
      (''https://pokeapi.co/api/v2/pokemon/25'',
         Reply 200 (Some (core_payload 25 ''pikachu'' 90 (JStr ''25.png'')))),
      (''https://pokeapi.co/api/v2/pokemon/charizard'',
         Reply 200 (Some (core_payload 6 ''charizard'' 100 (JStr ''6.png'')))),
      (''https://pokeapi.co/api/v2/pokemon/raichu'',
         Reply 200 (Some (core_payload 26 ''raichu'' 110 (JStr ''26.png'')))),
      (''https://pokeapi.co/api/v2/pokemon/jolteon'',
         Reply 200 (Some (core_payload 135 ''jolteon'' 130 (JStr ''135.png'')))),
      (''https://pokeapi.co/api/v2/pokemon/onix'',
         Reply 200 (Some (core_payload 95 ''onix'' 70 (JStr ''95.png'')))),
      (''https://pokeapi.co/api/v2/pokemon/gengar'',
         Reply 200 (Some (core_payload 94 ''gengar'' 110 (JStr ''94.png'')))),
      (''https://pokeapi.co/api/v2/pokemon/mewtwo'',
         Reply 200 (Some (core_payload 150 ''mewtwo'' 130 (JStr ''150.png'')))),
      (''https://pokeapi.co/api/v2/pokemon-species/150'', Reply 200 (Some mewtwo_species)),
      (''https://pokeapi.co/api/v2/pokemon/missingno'',
         Reply 200 (Some (core_payload 0 ''missingno'' 29 JNull)))]"

definition sample_env :: env where
  "sample_env =
     \<lparr>http_get = (\<lambda>url. case map_of sample_replies url of
                          None \<Rightarrow> Reply 404 (Some (JStr ''Not Found''))
                        | Some r \<Rightarrow> r),
      lax_int = (\<lambda>v. None), lax_bool = (\<lambda>v. None)\<rparr>"

text \<open>The record the hydrator makes of \<open>core_payload\<close> when no species data arrives.\<close>

definition sample_record :: "int \<Rightarrow> string \<Rightarrow> int \<Rightarrow> string \<Rightarrow> PokemonDetail" where
  "sample_record i n speed sprite =
     \<lparr>id' = i, name = n, types = [''normal''], sprite_url = sprite, height = 4, weight = 60,
      abilities = [''run away''], stats = [(JStr ''speed'', JInt speed)],
      is_legendary = False, is_mythical = False, description = None\<rparr>"

text \<open>
  Three records with two statistics each and a tie for the highest speed; a core payload
  whose speed is null, the record the hydrator makes of it, and an upstream that serves it
  beside the sample; and six requests that fill a team.
\<close>

definition with_stats :: "PokemonDetail \<Rightarrow> int \<Rightarrow> int \<Rightarrow> PokemonDetail" where
  "with_stats p attack speed =
     p\<lparr>stats := [(JStr ''attack'', JInt attack), (JStr ''speed'', JInt speed)]\<rparr>"

definition sample_trio :: "PokemonDetail list" where
  "sample_trio =
     [with_stats (sample_record 25 ''pikachu'' 90 ''25.png'') 55 90,
      with_stats (sample_record 26 ''raichu'' 110 ''26.png'') 90 110,
      with_stats (sample_record 94 ''gengar'' 110 ''94.png'') 65 110]"

definition null_speed_payload :: json where
  "null_speed_payload =
     JObj [(''id'', JInt 137), (''name'', JStr ''porygon''),
           (''types'', JList [JObj [(''slot'', JInt 1), (''type'', JObj [(''name'', JStr ''normal'')])]]),
           (''abilities'', JList [JObj [(''ability'', JObj [(''name'', JStr ''run-away'')])]]),
           (''stats'', JList [JObj [(''base_stat'', JNull),
                                    (''stat'', JObj [(''name'', JStr ''speed'')])]]),
           (''sprites'', JObj [(''front_default'', JStr ''137.png'')]),
           (''height'', JInt 8), (''weight'', JInt 365)]"

definition null_speed_record :: PokemonDetail where
  "null_speed_record =
     \<lparr>id' = 137, name = ''porygon'', types = [''normal''], sprite_url = ''137.png'', height = 8,
      weight = 365, abilities = [''run away''], stats = [(JStr ''speed'', JNull)],
      is_legendary = False, is_mythical = False, description = None\<rparr>"

definition odd_env :: env where
  "odd_env =
     \<lparr>http_get = (\<lambda>url. if url = ''https://pokeapi.co/api/v2/pokemon/porygon''
                        then Reply 200 (Some null_speed_payload)
                        else http_get sample_env url),
      lax_int = (\<lambda>v. None), lax_bool = (\<lambda>v. None)\<rparr>"

definition sample_requests :: "request list" where
  "sample_requests =
     map (AddToTeam ''ash'') [''pikachu'', ''charizard'', ''raichu'', ''jolteon'', ''onix'', ''gengar'']"

definition full_store :: store where
  "full_store = foldl (handle sample_env) Map.empty sample_requests"

text \<open>
  A team of five, and the dict after two adds for it that overlap: both pass their checks
  before either resumes.
\<close>

definition five_store :: store where
  "five_store =
     foldl (handle sample_env) Map.empty
       (map (AddToTeam ''ash'') [''pikachu'', ''charizard'', ''raichu'', ''jolteon'', ''onix''])"

definition overlapped_store :: store where
  "overlapped_store =
     (let s1 = snd (add_check five_store ''ash'' ''gengar'');
          s2 = snd (add_check s1 ''ash'' ''mewtwo'');
          s3 = snd (add_resume sample_env s2 ''ash'' ''gengar'')
      in snd (add_resume sample_env s3 ''ash'' ''mewtwo''))"

section \<open>Auxiliary facts\<close>

lemma e_bind_Inr: "e_bind m f = Inr y \<longleftrightarrow> (\<exists>x. m = Inr x \<and> f x = Inr y)"
  by (cases m) (simp_all add: e_bind_def)

lemma fetch_species_int: "fetch_pokemon_species e (JInt n) = JNull"
  by (simp add: fetch_pokemon_species_def fetch_def)

lemma make_fields:
  "make_PokemonDetail e i n ts u h w ab st l m d = Inr r \<Longrightarrow>
     validate_str u = Some (sprite_url r) \<and> validate_bool e l = Some (is_legendary r) \<and>
     validate_bool e m = Some (is_mythical r) \<and> description r = d"
  by (auto simp: make_PokemonDetail_def split: option.splits)


subsection \<open>The hydrator on the sample upstream\<close>

lemmas hydrate_defs = get_pokemon_details_def fetch_pokemon_data_def fetch_pokemon_species_def
  fetch_def e_bind_def extract_types_def extract_abilities_def extract_stats_def
  extract_description_def species_flag_def make_PokemonDetail_def replace_def is_english_def
  key_eq_def

lemmas sample_defs = sample_env_def sample_replies_def POKEAPI_BASE_URL_def lower_def
  lower_char_def

lemma hydrate_core_payload:
  assumes "http_get e (POKEAPI_BASE_URL @ ''/pokemon/'' @ lower s) =
             Reply 200 (Some (core_payload i n sp (JStr u)))"
  shows "get_pokemon_details e (JStr s) = Inr (Some (sample_record i n sp u))"
  using assms by (simp add: hydrate_defs core_payload_def sample_record_def)

lemma hydrate_not_found:
  assumes "http_get e (POKEAPI_BASE_URL @ ''/pokemon/'' @ lower s) = Reply 404 b"
  shows "get_pokemon_details e (JStr s) = Inr None"
  using assms by (simp add: hydrate_defs)

lemma hydrate_null_sprite:
  assumes "http_get e (POKEAPI_BASE_URL @ ''/pokemon/'' @ lower s) =
             Reply 200 (Some (core_payload i n sp JNull))"
  shows "get_pokemon_details e (JStr s) = Inl ValidationError"
  using assms by (simp add: hydrate_defs core_payload_def)

lemma sample_pikachu:
  "get_pokemon_details sample_env (JStr ''pikachu'') =
     Inr (Some (sample_record 25 ''pikachu'' 90 ''25.png''))"
  by (rule hydrate_core_payload) (simp add: sample_defs)

lemma sample_Pikachu:
  "get_pokemon_details sample_env (JStr ''Pikachu'') =
     Inr (Some (sample_record 25 ''pikachu'' 90 ''25.png''))"
  by (rule hydrate_core_payload) (simp add: sample_defs)

lemma sample_25:
  "get_pokemon_details sample_env (JStr ''25'') =
     Inr (Some (sample_record 25 ''pikachu'' 90 ''25.png''))"
  by (rule hydrate_core_payload) (simp add: sample_defs)

lemma sample_charizard:
  "get_pokemon_details sample_env (JStr ''charizard'') =
     Inr (Some (sample_record 6 ''charizard'' 100 ''6.png''))"
  by (rule hydrate_core_payload) (simp add: sample_defs)

lemma sample_raichu:
  "get_pokemon_details sample_env (JStr ''raichu'') =
     Inr (Some (sample_record 26 ''raichu'' 110 ''26.png''))"
  by (rule hydrate_core_payload) (simp add: sample_defs)

lemma sample_jolteon:
  "get_pokemon_details sample_env (JStr ''jolteon'') =
     Inr (Some (sample_record 135 ''jolteon'' 130 ''135.png''))"
  by (rule hydrate_core_payload) (simp add: sample_defs)

lemma sample_onix:
  "get_pokemon_details sample_env (JStr ''onix'') =
     Inr (Some (sample_record 95 ''onix'' 70 ''95.png''))"
  by (rule hydrate_core_payload) (simp add: sample_defs)

lemma sample_gengar:
  "get_pokemon_details sample_env (JStr ''gengar'') =
     Inr (Some (sample_record 94 ''gengar'' 110 ''94.png''))"
  by (rule hydrate_core_payload) (simp add: sample_defs)

lemma sample_mewtwo:
  "get_pokemon_details sample_env (JStr ''mewtwo'') =
     Inr (Some (sample_record 150 ''mewtwo'' 130 ''150.png''))"
  by (rule hydrate_core_payload) (simp add: sample_defs)

lemma sample_nobody: "get_pokemon_details sample_env (JStr ''nobody'') = Inr None"
  by (rule hydrate_not_found[where b = "Some (JStr ''Not Found'')"]) (simp add: sample_defs)

lemma sample_noone: "get_pokemon_details sample_env (JStr ''noone'') = Inr None"
  by (rule hydrate_not_found[where b = "Some (JStr ''Not Found'')"]) (simp add: sample_defs)

lemma sample_missingno:
  "get_pokemon_details sample_env (JStr ''missingno'') = Inl ValidationError"
  by (rule hydrate_null_sprite[where i = 0 and n = "''missingno''" and sp = 29])
    (simp add: sample_defs)

lemma sample_mewtwo_id:
  "py_getitem (fetch_pokemon_data sample_env (JStr ''mewtwo'')) ''id'' = Inr (JInt 150)"
  by (simp add: sample_defs fetch_pokemon_data_def fetch_def core_payload_def)

section \<open>The species lookup never reaches the provider\<close>

text \<open>
  Claim C10. The hydrator passes \<^verbatim>\<open>pokemon_data["id"]\<close> to the species fetcher. When
  that identifier is an integer, \<^verbatim>\<open>name_or_id.lower()\<close> raises inside the fetcher's
  \<^verbatim>\<open>try\<close> and the fetcher returns \<^verbatim>\<open>None\<close>; so every record the hydrator returns
  has \<open>is_legendary = False\<close>, \<open>is_mythical = False\<close> and no description, whatever the
  provider holds for the species.
\<close>

theorem species_never_fetched:
  assumes "get_pokemon_details e name_or_id = Inr (Some r)"
    and "py_getitem (fetch_pokemon_data e name_or_id) ''id'' = Inr (JInt n)"
  shows "fetch_pokemon_species e (JInt n) = JNull \<and>
         is_legendary r = False \<and> is_mythical r = False \<and> description r = None"
proof -
  from assms obtain nm tys sprite h w abs sts where
    mk: "make_PokemonDetail e (JInt n) nm tys sprite h w abs sts
           (JBool False) (JBool False) None = Inr r"
    by (auto simp: get_pokemon_details_def Let_def e_bind_Inr fetch_species_int
        extract_description_def species_flag_def split: if_splits)
  from make_fields[OF mk] show ?thesis
    by (simp add: fetch_species_int)
qed

text \<open>
  On the sample upstream: \<open>mewtwo\<close> has the identifier 150, and the species payload the
  provider holds for 150 (legendary, with an English flavor text) leaves no trace in the
  record.
\<close>

theorem species_never_fetched_witness:
  "fetch_pokemon_species sample_env (JInt 150) = JNull \<and>
   is_legendary (sample_record 150 ''mewtwo'' 130 ''150.png'') = False \<and>
   is_mythical (sample_record 150 ''mewtwo'' 130 ''150.png'') = False \<and>
   description (sample_record 150 ''mewtwo'' 130 ''150.png'') = None"
  using species_never_fetched[OF sample_mewtwo sample_mewtwo_id] .

section \<open>The description of a record\<close>

text \<open>
  Claim C1 says that the description of a record is the first English flavor text of the
  species payload. On the sample upstream the provider holds such a payload for the
  identifier 150, the core payload of \<open>mewtwo\<close> carries that identifier, and the record
  the hydrator returns for \<open>mewtwo\<close> has no description: the species fetcher is called
  with the integer and never sends the request.
\<close>

theorem description_lost_on_sample:
  "http_get sample_env ''https://pokeapi.co/api/v2/pokemon-species/150'' =
     Reply 200 (Some mewtwo_species) \<and>
   extract_description mewtwo_species = Inr (Some ''It was created by a scientist.'') \<and>
   py_getitem (fetch_pokemon_data sample_env (JStr ''mewtwo'')) ''id'' = Inr (JInt 150) \<and>
   map_sum id (map_option description)
     (get_pokemon_details sample_env (JStr ''mewtwo'')) = Inr (Some None)"
  by (simp add: sample_mewtwo sample_mewtwo_id sample_record_def)
    (simp add: sample_defs mewtwo_species_def extract_description_def e_bind_def is_english_def
      replace_def)

section \<open>The outcomes of the hydrator\<close>







section \<open>The batch resolver keeps the input order\<close>

lemma resolve_many_Nil: "resolve_many e [] = Inr []"
  by (simp add: resolve_many_def gather_def e_bind_def)

lemma resolve_many_Cons:
  "resolve_many e (i # ids) =
     (case get_pokemon_details e i of
        Inl x \<Rightarrow> Inl x
      | Inr ro \<Rightarrow>
          (case resolve_many e ids of
             Inl x \<Rightarrow> Inl x
           | Inr rs \<Rightarrow> Inr (case ro of None \<Rightarrow> rs | Some r \<Rightarrow> r # rs)))"
  by (simp add: resolve_many_def gather_def e_bind_def split: sum.splits option.splits)

lemma resolve_many_returns:
  "\<forall>i\<in>set ids. \<exists>ro. get_pokemon_details e i = Inr ro \<Longrightarrow>
   resolve_many e ids = Inr (List.map_filter (resolved e) ids)"
proof (induction ids)
  case Nil
  then show ?case by (simp add: resolve_many_Nil List.map_filter_simps)
next
  case (Cons i ids)
  then obtain ro where ro: "get_pokemon_details e i = Inr ro" by auto
  from Cons have rest: "resolve_many e ids = Inr (List.map_filter (resolved e) ids)" by simp
  have res: "resolved e i = ro"
    using ro by (cases ro) (simp_all add: resolved_def)
  show ?case
    by (cases ro) (simp_all add: resolve_many_Cons ro rest List.map_filter_simps res)
qed

lemma resolve_many_raises:
  "i \<in> set ids \<Longrightarrow> get_pokemon_details e i = Inl x \<Longrightarrow> \<exists>y. resolve_many e ids = Inl y"
  by (induction ids) (auto simp: resolve_many_Cons split: sum.splits)

text \<open>
  Claim C3 says that for every input list the batch resolver returns the records of the
  identifiers that resolved, in input order. On the sample upstream \<open>pikachu\<close> and
  \<open>charizard\<close> resolve and the hydration of \<open>missingno\<close> raises; the exception leaves
  \<^verbatim>\<open>asyncio.gather\<close>, and the batch returns no list at all.
\<close>

theorem resolve_many_raises_on_sample:
  "resolved sample_env (JStr ''pikachu'') = Some (sample_record 25 ''pikachu'' 90 ''25.png'') \<and>
   resolved sample_env (JStr ''charizard'') = Some (sample_record 6 ''charizard'' 100 ''6.png'') \<and>
   resolve_many sample_env [JStr ''pikachu'', JStr ''missingno'', JStr ''charizard''] =
     Inl ValidationError"
  by (simp add: resolved_def resolve_many_Cons resolve_many_Nil sample_pikachu sample_charizard
      sample_missingno)

text \<open>
  Claim C3, amended. For every input list whose hydrations all return (a record or
  \<^verbatim>\<open>None\<close>), the batch resolver returns exactly the records of the identifiers that
  resolved, in the order of the input list; when some hydration raises, the batch raises
  and returns nothing.
\<close>

theorem resolve_many_order:
  "((\<forall>i\<in>set ids. \<exists>ro. get_pokemon_details e i = Inr ro) \<longrightarrow>
      resolve_many e ids = Inr (List.map_filter (resolved e) ids)) \<and>
   ((\<exists>i\<in>set ids. \<exists>x. get_pokemon_details e i = Inl x) \<longrightarrow>
      (\<exists>y. resolve_many e ids = Inl y))"
  using resolve_many_returns[of ids e] resolve_many_raises[of _ ids e] by auto

text \<open>
  The inputs \<open>[A, B, C]\<close> where \<open>B\<close> fails give \<open>[A, C]\<close>; with a hydration that raises,
  the batch raises.
\<close>

theorem resolve_many_order_witness:
  "resolve_many sample_env [JStr ''pikachu'', JStr ''nobody'', JStr ''charizard''] =
     Inr [sample_record 25 ''pikachu'' 90 ''25.png'', sample_record 6 ''charizard'' 100 ''6.png''] \<and>
   (\<exists>y. resolve_many sample_env [JStr ''pikachu'', JStr ''missingno''] = Inl y)"
proof -
  have a: "\<forall>i\<in>set [JStr ''pikachu'', JStr ''nobody'', JStr ''charizard''].
             \<exists>ro. get_pokemon_details sample_env i = Inr ro"
    by (simp add: sample_pikachu sample_nobody sample_charizard)
  have b: "\<exists>i\<in>set [JStr ''pikachu'', JStr ''missingno''].
             \<exists>x. get_pokemon_details sample_env i = Inl x"
    by (simp add: sample_missingno)
  have "resolve_many sample_env [JStr ''pikachu'', JStr ''nobody'', JStr ''charizard''] =
      Inr (List.map_filter (resolved sample_env)
             [JStr ''pikachu'', JStr ''nobody'', JStr ''charizard''])"
    using resolve_many_order[of "[JStr ''pikachu'', JStr ''nobody'', JStr ''charizard'']"
        sample_env] a by blast
  moreover have "\<exists>y. resolve_many sample_env [JStr ''pikachu'', JStr ''missingno''] = Inl y"
    using resolve_many_order[of "[JStr ''pikachu'', JStr ''missingno'']" sample_env] b by blast
  ultimately show ?thesis
    by (simp add: List.map_filter_simps resolved_def sample_pikachu sample_nobody
        sample_charizard)
qed

section \<open>When the comparison fails\<close>

lemma e_map_keyed:
  assumes "\<forall>x\<in>set xs. \<exists>y. f x = Inr (x, y)"
  shows "\<exists>ys. e_map f xs = Inr ys \<and> map fst ys = xs \<and>
              (\<forall>x\<in>set xs. \<exists>y. f x = Inr (x, y) \<and> map_of ys x = Some y)"
  using assms
proof (induction xs)
  case Nil
  then show ?case by simp
next
  case (Cons x xs)
  then obtain y where y: "f x = Inr (x, y)" by auto
  from Cons obtain ys where ys: "e_map f xs = Inr ys" "map fst ys = xs"
    "\<forall>x\<in>set xs. \<exists>y. f x = Inr (x, y) \<and> map_of ys x = Some y" by auto
  have "e_map f (x # xs) = Inr ((x, y) # ys)" using y ys(1) by simp
  moreover have "map fst ((x, y) # ys) = x # xs" using ys(2) by simp
  moreover have "\<forall>z\<in>set (x # xs). \<exists>w. f z = Inr (z, w) \<and> map_of ((x, y) # ys) z = Some w"
    using y ys(3) by auto
  ultimately show ?case by (intro exI[of _ "(x, y) # ys"]) simp
qed

lemma build_comparison_single: "\<exists>c. build_comparison [r] = Inr c"
proof -
  have cs: "\<forall>stat\<in>set STAT_NAMES. \<exists>y. compare_stat [r] stat = Inr (stat, y)"
    by (simp add: compare_stat_def stat_pairs_def py_max_def py_min_def e_bind_def)
  from e_map_keyed[OF this] obtain sts where "e_map (compare_stat [r]) STAT_NAMES = Inr sts"
    by auto
  then show ?thesis
    by (simp add: build_comparison_def compare_attribute_def py_max_def py_min_def e_bind_def)
qed

lemma compare_single:
  assumes "2 \<le> length pokemon_names" and "length pokemon_names \<le> 6"
    and "resolve_many e (map JStr pokemon_names) = Inr [r]"
  shows "\<exists>c. compare_pokemon e pokemon_names = Inr \<lparr>pokemon = [r], comparison = c\<rparr>"
proof -
  from build_comparison_single[of r] obtain c where "build_comparison [r] = Inr c" by auto
  with assms have "compare_pokemon e pokemon_names = Inr \<lparr>pokemon = [r], comparison = c\<rparr>"
    by (simp add: compare_pokemon_def e_bind_def)
  then show ?thesis by (rule exI)
qed

text \<open>
  Claim C2 says that the comparison fails whenever fewer than 2 identifiers resolve. On the
  sample upstream \<open>pikachu\<close> resolves and \<open>nobody\<close> does not, and the comparison of the
  two returns a result over the one record.
\<close>

theorem compare_returns_for_one_record:
  "get_pokemon_details sample_env (JStr ''pikachu'') =
     Inr (Some (sample_record 25 ''pikachu'' 90 ''25.png'')) \<and>
   get_pokemon_details sample_env (JStr ''nobody'') = Inr None \<and>
   map_sum id pokemon (compare_pokemon sample_env [''pikachu'', ''nobody'']) =
     Inr [sample_record 25 ''pikachu'' 90 ''25.png'']"
proof -
  have "resolve_many sample_env (map JStr [''pikachu'', ''nobody'']) =
      Inr [sample_record 25 ''pikachu'' 90 ''25.png'']"
    by (simp add: resolve_many_Cons resolve_many_Nil sample_pikachu sample_nobody)
  from compare_single[OF _ _ this] obtain c where
    "compare_pokemon sample_env [''pikachu'', ''nobody''] =
       Inr \<lparr>pokemon = [sample_record 25 ''pikachu'' 90 ''25.png''], comparison = c\<rparr>"
    by auto
  then show ?thesis by (simp add: sample_pikachu sample_nobody)
qed

lemma none_resolved:
  "\<forall>i\<in>set ids. get_pokemon_details e i = Inr None \<Longrightarrow> List.map_filter (resolved e) ids = []"
  by (induction ids) (simp_all add: List.map_filter_simps resolved_def)

text \<open>
  Claim C2, amended. For a request of 2 to 6 identifiers: when the hydration of every
  identifier returns \<^verbatim>\<open>None\<close>, so that none resolves, the comparison fails with the
  not-found error 404; when every hydration returns and exactly one identifier resolves to
  a record, the comparison does not fail but returns a result over that single record.
\<close>

theorem compare_with_fewer_than_two_records:
  assumes "2 \<le> length pokemon_names" and "length pokemon_names \<le> 6"
  shows "((\<forall>n\<in>set pokemon_names. get_pokemon_details e (JStr n) = Inr None) \<longrightarrow>
            compare_pokemon e pokemon_names =
              Inl (HTTPException 404 ''None of the requested Pokemon were found'')) \<and>
         (\<forall>r. (\<forall>n\<in>set pokemon_names. \<exists>ro. get_pokemon_details e (JStr n) = Inr ro) \<and>
              List.map_filter (resolved e) (map JStr pokemon_names) = [r] \<longrightarrow>
            (\<exists>c. compare_pokemon e pokemon_names = Inr \<lparr>pokemon = [r], comparison = c\<rparr>))"
proof (intro conjI allI impI)
  assume none: "\<forall>n\<in>set pokemon_names. get_pokemon_details e (JStr n) = Inr None"
  then have "\<forall>i\<in>set (map JStr pokemon_names). get_pokemon_details e i = Inr None" by simp
  then have "List.map_filter (resolved e) (map JStr pokemon_names) = []"
    by (rule none_resolved)
  moreover have "\<forall>i\<in>set (map JStr pokemon_names). \<exists>ro. get_pokemon_details e i = Inr ro"
    using none by simp
  ultimately have "resolve_many e (map JStr pokemon_names) = Inr []"
    by (simp add: resolve_many_returns)
  with assms show "compare_pokemon e pokemon_names =
      Inl (HTTPException 404 ''None of the requested Pokemon were found'')"
    by (simp add: compare_pokemon_def e_bind_def)
next
  fix r
  assume one: "(\<forall>n\<in>set pokemon_names. \<exists>ro. get_pokemon_details e (JStr n) = Inr ro) \<and>
      List.map_filter (resolved e) (map JStr pokemon_names) = [r]"
  then have "\<forall>i\<in>set (map JStr pokemon_names). \<exists>ro. get_pokemon_details e i = Inr ro" by simp
  then have "resolve_many e (map JStr pokemon_names) =
      Inr (List.map_filter (resolved e) (map JStr pokemon_names))"
    by (rule resolve_many_returns)
  with one have "resolve_many e (map JStr pokemon_names) = Inr [r]" by simp
  with assms show "\<exists>c. compare_pokemon e pokemon_names = Inr \<lparr>pokemon = [r], comparison = c\<rparr>"
    by (rule compare_single)
qed

text \<open>
  On the sample upstream: two unknown names give the error 404, and an unknown name with
  \<open>pikachu\<close> gives a result over the record of \<open>pikachu\<close>.
\<close>

theorem compare_with_fewer_than_two_records_witness:
  "compare_pokemon sample_env [''nobody'', ''noone''] =
     Inl (HTTPException 404 ''None of the requested Pokemon were found'') \<and>
   (\<exists>c. compare_pokemon sample_env [''nobody'', ''pikachu''] =
          Inr \<lparr>pokemon = [sample_record 25 ''pikachu'' 90 ''25.png''], comparison = c\<rparr>)"
proof -
  have n: "\<forall>n\<in>set [''nobody'', ''noone'']. get_pokemon_details sample_env (JStr n) = Inr None"
    by (simp add: sample_nobody sample_noone)
  have o: "(\<forall>n\<in>set [''nobody'', ''pikachu''].
              \<exists>ro. get_pokemon_details sample_env (JStr n) = Inr ro) \<and>
      List.map_filter (resolved sample_env) (map JStr [''nobody'', ''pikachu'']) =
        [sample_record 25 ''pikachu'' 90 ''25.png'']"
    by (simp add: List.map_filter_simps resolved_def sample_pikachu sample_nobody)
  have l2: "2 \<le> length [''nobody'', ''noone'']" "length [''nobody'', ''noone''] \<le> 6"
    "2 \<le> length [''nobody'', ''pikachu'']" "length [''nobody'', ''pikachu''] \<le> 6"
    by simp_all
  have "compare_pokemon sample_env [''nobody'', ''noone''] =
      Inl (HTTPException 404 ''None of the requested Pokemon were found'')"
    using compare_with_fewer_than_two_records[OF l2(1,2), of sample_env] n by blast
  moreover have "\<exists>c. compare_pokemon sample_env [''nobody'', ''pikachu''] =
      Inr \<lparr>pokemon = [sample_record 25 ''pikachu'' 90 ''25.png''], comparison = c\<rparr>"
    using compare_with_fewer_than_two_records[OF l2(3,4), of sample_env] o by blast
  ultimately show ?thesis by simp
qed

section \<open>A pokedex the provider does not serve\<close>

text \<open>
  Claim C9 says that a non-success status of the pokedex endpoint becomes a not-found
  outcome. On the sample upstream the pokedex of \<open>kanto\<close> answers 404, and the region
  lookup raises the server-side error 500.
\<close>

theorem region_lookup_500_on_sample:
  "http_get sample_env ''https://pokeapi.co/api/v2/pokedex/kanto'' =
     Reply 404 (Some (JStr ''Not Found'')) \<and>
   get_region_pokemon sample_env ''kanto'' 20 0 =
     Inl (HTTPException 500 ''Failed to fetch region data'')"
  by (simp add: get_region_pokemon_def Let_def POKEMON_REGIONS_def sample_defs)

text \<open>
  Claim C9, amended. For a known region, any response of the pokedex endpoint with a
  status other than 200 makes the region lookup fail with the status 500 and the message
  \<open>Failed to fetch region data\<close>.
\<close>

theorem region_upstream_failure_is_500:
  assumes "map_of POKEMON_REGIONS (lower region_name) = Some info"
    and "http_get e (POKEAPI_BASE_URL @ ''/pokedex/'' @ pokedex info) = Reply status_code body"
    and "status_code \<noteq> 200"
  shows "get_region_pokemon e region_name limit offset =
           Inl (HTTPException 500 ''Failed to fetch region data'')"
  using assms by (simp add: get_region_pokemon_def Let_def)

theorem region_upstream_failure_is_500_witness:
  "get_region_pokemon sample_env ''Johto'' 5 10 =
     Inl (HTTPException 500 ''Failed to fetch region data'')"
proof -
  have a: "map_of POKEMON_REGIONS (lower ''Johto'') =
      Some \<lparr>generation = ''generation-ii'', pokedex = ''original-johto''\<rparr>"
    by (simp add: POKEMON_REGIONS_def lower_def lower_char_def)
  have b: "http_get sample_env
      (POKEAPI_BASE_URL @ ''/pokedex/'' @
         pokedex \<lparr>generation = ''generation-ii'', pokedex = ''original-johto''\<rparr>) =
      Reply 404 (Some (JStr ''Not Found''))"
    by (simp add: sample_defs)
  have c: "(404::int) \<noteq> 200" by simp
  from region_upstream_failure_is_500[OF a b c] show ?thesis .
qed

section \<open>The comparator breaks ties by input order\<close>

lemma py_gt_int: "py_gt (JInt a) (JInt b) = Inr (b < a)"
  by (simp add: py_gt_def)

lemma py_lt_int: "py_lt (JInt a) (JInt b) = Inr (a < b)"
  by (simp add: py_lt_def)

lemma max_loop_first:
  assumes "\<forall>x\<in>set (b # xs). key (f x) = JInt (v x)"
  shows "\<exists>ys r zs. b # xs = ys @ r # zs \<and> max_loop key (f b) (map f xs) = Inr (f r) \<and>
           (\<forall>y\<in>set ys. v y < v r) \<and> (\<forall>z\<in>set zs. v z \<le> v r)"
  using assms
proof (induction xs arbitrary: b)
  case Nil
  show ?case by (intro exI[of _ "[]"] exI[of _ b]) simp
next
  case (Cons x xs)
  have kb: "key (f b) = JInt (v b)" and kx: "key (f x) = JInt (v x)"
    using Cons.prems by simp_all
  have rest: "\<forall>y\<in>set xs. key (f y) = JInt (v y)" using Cons.prems by simp
  define b' where "b' = (if v b < v x then x else b)"
  have step: "max_loop key (f b) (map f (x # xs)) = max_loop key (f b') (map f xs)"
    by (simp add: kb kx py_gt_int e_bind_def b'_def)
  have "\<forall>y\<in>set (b' # xs). key (f y) = JInt (v y)"
    using kb kx rest by (simp add: b'_def)
  from Cons.IH[of b', OF this] obtain ys r zs where
      d: "b' # xs = ys @ r # zs" and m: "max_loop key (f b') (map f xs) = Inr (f r)"
      and lo: "\<forall>y\<in>set ys. v y < v r" and hi: "\<forall>z\<in>set zs. v z \<le> v r"
      by blast
  have b'r: "v b' \<le> v r"
  proof (cases ys)
    case Nil
    with d show ?thesis by simp
  next
    case (Cons y ys')
    with d lo show ?thesis by auto
  qed
  show ?case
  proof (cases "v b < v x")
    case True
    then have "b' = x" by (simp add: b'_def)
    with d have "b # x # xs = (b # ys) @ r # zs" by simp
    moreover have "\<forall>y\<in>set (b # ys). v y < v r"
      using lo True b'r \<open>b' = x\<close> by auto
    ultimately show ?thesis using step m hi
      by (intro exI[of _ "b # ys"] exI[of _ r] exI[of _ zs]) simp
  next
    case False
    then have b'b: "b' = b" by (simp add: b'_def)
    show ?thesis
    proof (cases ys)
      case Nil
      with d b'b have "r = b" "zs = xs" by simp_all
      then have "b # x # xs = [] @ r # (x # zs)" by simp
      moreover have "\<forall>z\<in>set (x # zs). v z \<le> v r" using hi False \<open>r = b\<close> by auto
      moreover have "\<forall>y\<in>set ([]::'a list). v y < v r" by simp
      ultimately show ?thesis using step m
        by (intro exI[of _ "[]"] exI[of _ r] exI[of _ "x # zs"]) simp
    next
      case (Cons y ys')
      with d b'b have xs: "xs = ys' @ r # zs" and yb: "y = b" by simp_all
      have "v b < v r" using lo Cons yb by simp
      with False have "v x < v r" by simp
      have "b # x # xs = (b # x # ys') @ r # zs" using xs by simp
      moreover have "\<forall>y\<in>set (b # x # ys'). v y < v r"
        using lo Cons yb \<open>v x < v r\<close> by auto
      ultimately show ?thesis using step m hi
        by (intro exI[of _ "b # x # ys'"] exI[of _ r] exI[of _ zs]) simp
    qed
  qed
qed

lemma min_loop_first:
  assumes "\<forall>x\<in>set (b # xs). key (f x) = JInt (v x)"
  shows "\<exists>ys r zs. b # xs = ys @ r # zs \<and> min_loop key (f b) (map f xs) = Inr (f r) \<and>
           (\<forall>y\<in>set ys. v r < v y) \<and> (\<forall>z\<in>set zs. v r \<le> v z)"
  using assms
proof (induction xs arbitrary: b)
  case Nil
  show ?case by (intro exI[of _ "[]"] exI[of _ b]) simp
next
  case (Cons x xs)
  have kb: "key (f b) = JInt (v b)" and kx: "key (f x) = JInt (v x)"
    using Cons.prems by simp_all
  have rest: "\<forall>y\<in>set xs. key (f y) = JInt (v y)" using Cons.prems by simp
  define b' where "b' = (if v x < v b then x else b)"
  have step: "min_loop key (f b) (map f (x # xs)) = min_loop key (f b') (map f xs)"
    by (simp add: kb kx py_lt_int e_bind_def b'_def)
  have "\<forall>y\<in>set (b' # xs). key (f y) = JInt (v y)"
    using kb kx rest by (simp add: b'_def)
  from Cons.IH[of b', OF this] obtain ys r zs where
      d: "b' # xs = ys @ r # zs" and m: "min_loop key (f b') (map f xs) = Inr (f r)"
      and lo: "\<forall>y\<in>set ys. v r < v y" and hi: "\<forall>z\<in>set zs. v r \<le> v z"
      by blast
  have b'r: "v r \<le> v b'"
  proof (cases ys)
    case Nil
    with d show ?thesis by simp
  next
    case (Cons y ys')
    with d lo show ?thesis by auto
  qed
  show ?case
  proof (cases "v x < v b")
    case True
    then have "b' = x" by (simp add: b'_def)
    with d have "b # x # xs = (b # ys) @ r # zs" by simp
    moreover have "\<forall>y\<in>set (b # ys). v r < v y"
      using lo True b'r \<open>b' = x\<close> by auto
    ultimately show ?thesis using step m hi
      by (intro exI[of _ "b # ys"] exI[of _ r] exI[of _ zs]) simp
  next
    case False
    then have b'b: "b' = b" by (simp add: b'_def)
    show ?thesis
    proof (cases ys)
      case Nil
      with d b'b have "r = b" "zs = xs" by simp_all
      then have "b # x # xs = [] @ r # (x # zs)" by simp
      moreover have "\<forall>z\<in>set (x # zs). v r \<le> v z" using hi False \<open>r = b\<close> by auto
      moreover have "\<forall>y\<in>set ([]::'a list). v r < v y" by simp
      ultimately show ?thesis using step m
        by (intro exI[of _ "[]"] exI[of _ r] exI[of _ "x # zs"]) simp
    next
      case (Cons y ys')
      with d b'b have xs: "xs = ys' @ r # zs" and yb: "y = b" by simp_all
      have "v r < v b" using lo Cons yb by simp
      with False have "v r < v x" by simp
      have "b # x # xs = (b # x # ys') @ r # zs" using xs by simp
      moreover have "\<forall>y\<in>set (b # x # ys'). v r < v y"
        using lo Cons yb \<open>v r < v x\<close> by auto
      ultimately show ?thesis using step m hi
        by (intro exI[of _ "b # x # ys'"] exI[of _ r] exI[of _ zs]) simp
    qed
  qed
qed

lemma find_skip: "\<forall>y\<in>set ys. \<not> P y \<Longrightarrow> P r \<Longrightarrow> find P (ys @ r # zs) = Some r"
  by (induction ys) simp_all

lemma first_attaining_max:
  fixes v :: "PokemonDetail \<Rightarrow> int"
  assumes "\<forall>y\<in>set ys. v y < v r" "\<forall>z\<in>set zs. v z \<le> v r"
  shows "first_attaining v (Max (v ` set (ys @ r # zs))) (ys @ r # zs) = Some r"
proof -
  have "Max (v ` set (ys @ r # zs)) = v r"
    using assms by (intro Max_eqI) (auto simp: less_imp_le)
  moreover have "\<forall>y\<in>set ys. v y \<noteq> v r" using assms(1) by auto
  ultimately show ?thesis
    unfolding first_attaining_def by (simp add: find_skip)
qed

lemma first_attaining_min:
  fixes v :: "PokemonDetail \<Rightarrow> int"
  assumes "\<forall>y\<in>set ys. v r < v y" "\<forall>z\<in>set zs. v r \<le> v z"
  shows "first_attaining v (Min (v ` set (ys @ r # zs))) (ys @ r # zs) = Some r"
proof -
  have "Min (v ` set (ys @ r # zs)) = v r"
    using assms by (intro Min_eqI) (auto simp: less_imp_le)
  moreover have "\<forall>y\<in>set ys. v y \<noteq> v r" using assms(1) by auto
  ultimately show ?thesis
    unfolding first_attaining_def by (simp add: find_skip)
qed

lemma py_max_first:
  fixes v :: "PokemonDetail \<Rightarrow> int"
  assumes "ps \<noteq> []" "\<forall>p\<in>set ps. key (f p) = JInt (v p)"
  shows "\<exists>hi. first_attaining v (Max (v ` set ps)) ps = Some hi \<and> py_max key (map f ps) = Inr (f hi)"
proof -
  from assms(1) obtain b xs where ps: "ps = b # xs" by (cases ps) auto
  with assms(2) have "\<forall>x\<in>set (b # xs). key (f x) = JInt (v x)" by simp
  from max_loop_first[of b xs key f v, OF this] obtain ys r zs where
    d: "b # xs = ys @ r # zs" and m: "max_loop key (f b) (map f xs) = Inr (f r)"
    and lo: "\<forall>y\<in>set ys. v y < v r" and hi: "\<forall>z\<in>set zs. v z \<le> v r" by auto
  have "py_max key (map f ps) = Inr (f r)" using ps m by (simp add: py_max_def)
  moreover have "first_attaining v (Max (v ` set ps)) ps = Some r"
    using first_attaining_max[OF lo hi] unfolding ps d .
  ultimately show ?thesis by (intro exI[of _ r]) simp
qed

lemma py_min_first:
  fixes v :: "PokemonDetail \<Rightarrow> int"
  assumes "ps \<noteq> []" "\<forall>p\<in>set ps. key (f p) = JInt (v p)"
  shows "\<exists>lo. first_attaining v (Min (v ` set ps)) ps = Some lo \<and> py_min key (map f ps) = Inr (f lo)"
proof -
  from assms(1) obtain b xs where ps: "ps = b # xs" by (cases ps) auto
  with assms(2) have "\<forall>x\<in>set (b # xs). key (f x) = JInt (v x)" by simp
  from min_loop_first[of b xs key f v, OF this] obtain ys r zs where
    d: "b # xs = ys @ r # zs" and m: "min_loop key (f b) (map f xs) = Inr (f r)"
    and lo: "\<forall>y\<in>set ys. v r < v y" and hi: "\<forall>z\<in>set zs. v r \<le> v z" by auto
  have "py_min key (map f ps) = Inr (f r)" using ps m by (simp add: py_min_def)
  moreover have "first_attaining v (Min (v ` set ps)) ps = Some r"
    using first_attaining_min[OF lo hi] unfolding ps d .
  ultimately show ?thesis by (intro exI[of _ r]) simp
qed

lemma key_eq_str: "key_eq k (JStr n) \<longleftrightarrow> k = JStr n"
  by (cases k) (auto simp: key_eq_def)

lemma dict_get_map_of:
  "dict_get d (JStr n) dflt = (case map_of d (JStr n) of None \<Rightarrow> dflt | Some v \<Rightarrow> v)"
  by (induction d) (auto simp: key_eq_str)

lemma integer_stats_value:
  assumes "integer_stats p" and "map_of (stats p) k = Some v"
  shows "\<exists>n. v = JInt n"
proof -
  from assms(2) have "(k, v) \<in> set (stats p)" by (rule map_of_SomeD)
  with assms(1) have "case snd (k, v) of JInt n \<Rightarrow> True | _ \<Rightarrow> False"
    unfolding integer_stats_def list_all_iff by (rule bspec)
  then show ?thesis by (cases v) simp_all
qed

lemma stat_value_eq:
  assumes "integer_stats p"
  shows "dict_get (stats p) (JStr stat) (JInt 0) = JInt (stat_value p stat)"
proof (cases "map_of (stats p) (JStr stat)")
  case None
  then show ?thesis by (simp add: dict_get_map_of stat_value_def)
next
  case (Some v)
  with integer_stats_value[OF assms Some] show ?thesis
    by (auto simp: dict_get_map_of stat_value_def)
qed

lemma first_attaining_mem: "first_attaining v m ps = Some p \<Longrightarrow> p \<in> set ps"
  by (auto simp: first_attaining_def find_Some_iff)

lemma compare_stat_first:
  assumes "ps \<noteq> []" "\<forall>p\<in>set ps. integer_stats p"
  shows "\<exists>hi lo. first_attaining (\<lambda>p. stat_value p stat) (Max ((\<lambda>p. stat_value p stat) ` set ps)) ps = Some hi \<and>
                 first_attaining (\<lambda>p. stat_value p stat) (Min ((\<lambda>p. stat_value p stat) ` set ps)) ps = Some lo \<and>
                 compare_stat ps stat =
                   Inr (stat, \<lparr>highest = (name hi, JInt (stat_value hi stat)),
                              lowest = (name lo, JInt (stat_value lo stat))\<rparr>)"
proof -
  let ?f = "\<lambda>p. (name p, dict_get (stats p) (JStr stat) (JInt 0))"
  let ?v = "\<lambda>p. stat_value p stat"
  have k: "\<forall>p\<in>set ps. snd (?f p) = JInt (?v p)"
    using assms(2) by (simp add: stat_value_eq)
  from py_max_first[of ps snd ?f ?v, OF assms(1) k] obtain hi where
    hi: "first_attaining ?v (Max (?v ` set ps)) ps = Some hi" "py_max snd (map ?f ps) = Inr (?f hi)"
    by auto
  from py_min_first[of ps snd ?f ?v, OF assms(1) k] obtain lo where
    lo: "first_attaining ?v (Min (?v ` set ps)) ps = Some lo" "py_min snd (map ?f ps) = Inr (?f lo)"
    by auto
  have "hi \<in> set ps" "lo \<in> set ps"
    using hi(1) lo(1) by (auto dest: first_attaining_mem)
  then have "?f hi = (name hi, JInt (?v hi))" "?f lo = (name lo, JInt (?v lo))"
    using assms(2) by (simp_all add: stat_value_eq)
  with hi(2) lo(2) have "compare_stat ps stat =
                   Inr (stat, \<lparr>highest = (name hi, JInt (stat_value hi stat)),
                              lowest = (name lo, JInt (stat_value lo stat))\<rparr>)"
    by (simp add: compare_stat_def stat_pairs_def e_bind_def)
  with hi(1) lo(1) show ?thesis by (intro exI[of _ hi] exI[of _ lo]) simp
qed

lemma compare_attribute_first:
  assumes "ps \<noteq> []"
  shows "\<exists>hi lo. first_attaining attr (Max (attr ` set ps)) ps = Some hi \<and>
                 first_attaining attr (Min (attr ` set ps)) ps = Some lo \<and>
                 compare_attribute attr ps =
                   Inr \<lparr>highest = (name hi, attr hi), lowest = (name lo, attr lo)\<rparr>"
proof -
  let ?f = "\<lambda>p. (name p, attr p)"
  let ?key = "\<lambda>x::string \<times> int. JInt (snd x)"
  have k: "\<forall>p\<in>set ps. ?key (?f p) = JInt (attr p)" by simp
  from py_max_first[of ps ?key ?f attr, OF assms k] obtain hi where
    hi: "first_attaining attr (Max (attr ` set ps)) ps = Some hi" "py_max ?key (map ?f ps) = Inr (?f hi)"
    by auto
  from py_min_first[of ps ?key ?f attr, OF assms k] obtain lo where
    lo: "first_attaining attr (Min (attr ` set ps)) ps = Some lo" "py_min ?key (map ?f ps) = Inr (?f lo)"
    by auto
  from hi(2) lo(2) have "compare_attribute attr ps =
                   Inr \<lparr>highest = (name hi, attr hi), lowest = (name lo, attr lo)\<rparr>"
    by (simp add: compare_attribute_def e_bind_def)
  with hi(1) lo(1) show ?thesis by (intro exI[of _ hi] exI[of _ lo]) simp
qed

lemma hydrate_null_speed:
  "get_pokemon_details odd_env (JStr ''porygon'') = Inr (Some null_speed_record)"
  by (simp add: hydrate_defs odd_env_def null_speed_payload_def null_speed_record_def
      POKEAPI_BASE_URL_def lower_def lower_char_def)

lemma hydrate_odd_pikachu:
  "get_pokemon_details odd_env (JStr ''pikachu'') =
     Inr (Some (sample_record 25 ''pikachu'' 90 ''25.png''))"
  by (rule hydrate_core_payload) (simp add: odd_env_def sample_defs)

text \<open>
  Claim C4 is stated for every non-empty list of resolved records. On an upstream that
  serves \<open>pikachu\<close> with the speed 90 and \<open>porygon\<close> with a null speed, both names
  resolve, and the comparison of the two records raises \<open>TypeError\<close>: \<^verbatim>\<open>max\<close> compares
  \<^verbatim>\<open>None\<close> with 90. No highest or lowest entry is reported for any statistic.
\<close>

theorem comparison_raises_on_null_statistic:
  "resolve_many odd_env [JStr ''pikachu'', JStr ''porygon''] =
     Inr [sample_record 25 ''pikachu'' 90 ''25.png'', null_speed_record] \<and>
   build_comparison [sample_record 25 ''pikachu'' 90 ''25.png'', null_speed_record] =
     Inl TypeError \<and>
   compare_pokemon odd_env [''pikachu'', ''porygon''] = Inl TypeError"
proof -
  have r: "resolve_many odd_env [JStr ''pikachu'', JStr ''porygon''] =
      Inr [sample_record 25 ''pikachu'' 90 ''25.png'', null_speed_record]"
    by (simp add: resolve_many_Cons resolve_many_Nil hydrate_null_speed hydrate_odd_pikachu)
  have b: "build_comparison [sample_record 25 ''pikachu'' 90 ''25.png'', null_speed_record] =
      Inl TypeError"
    by (simp add: build_comparison_def STAT_NAMES_def compare_stat_def stat_pairs_def py_max_def
        py_min_def py_gt_def py_lt_def e_bind_def key_eq_def sample_record_def
        null_speed_record_def)
  have "compare_pokemon odd_env [''pikachu'', ''porygon''] = Inl TypeError"
    using r b by (simp add: compare_pokemon_def e_bind_def)
  with r b show ?thesis by simp
qed

text \<open>
  Claim C4, amended. For every non-empty list of records whose statistics are integers,
  the comparison is built, and for each of the six statistics its \<open>highest\<close> entry is the
  name and value of the first record, in input order, whose value is the maximum, its
  \<open>lowest\<close> entry that of the first record whose value is the minimum, where the value of
  a record is the integer its \<open>stats\<close> hold under the statistic and 0 when they hold none.
  Height and weight are compared the same way.
\<close>

theorem comparison_first_in_input_order:
  assumes "pokemon_list \<noteq> []" and "\<forall>p\<in>set pokemon_list. integer_stats p"
  shows "\<exists>c. build_comparison pokemon_list = Inr c \<and>
      (\<forall>stat\<in>set STAT_NAMES. \<exists>x hi lo.
          map_of (cmp_stats c) stat = Some x \<and>
          first_attaining (\<lambda>p. stat_value p stat)
            (Max ((\<lambda>p. stat_value p stat) ` set pokemon_list)) pokemon_list = Some hi \<and>
          highest x = (name hi, JInt (stat_value hi stat)) \<and>
          first_attaining (\<lambda>p. stat_value p stat)
            (Min ((\<lambda>p. stat_value p stat) ` set pokemon_list)) pokemon_list = Some lo \<and>
          lowest x = (name lo, JInt (stat_value lo stat))) \<and>
      (\<exists>hi lo.
          first_attaining height (Max (height ` set pokemon_list)) pokemon_list = Some hi \<and>
          highest (cmp_height c) = (name hi, height hi) \<and>
          first_attaining height (Min (height ` set pokemon_list)) pokemon_list = Some lo \<and>
          lowest (cmp_height c) = (name lo, height lo)) \<and>
      (\<exists>hi lo.
          first_attaining weight (Max (weight ` set pokemon_list)) pokemon_list = Some hi \<and>
          highest (cmp_weight c) = (name hi, weight hi) \<and>
          first_attaining weight (Min (weight ` set pokemon_list)) pokemon_list = Some lo \<and>
          lowest (cmp_weight c) = (name lo, weight lo))"
proof -
  let ?ps = pokemon_list
  have "\<forall>stat\<in>set STAT_NAMES. \<exists>y. compare_stat ?ps stat = Inr (stat, y)"
    using compare_stat_first[OF assms] by metis
  from e_map_keyed[OF this] obtain sts where
    sts: "e_map (compare_stat ?ps) STAT_NAMES = Inr sts"
    and look: "\<forall>stat\<in>set STAT_NAMES. \<exists>y. compare_stat ?ps stat = Inr (stat, y) \<and> map_of sts stat = Some y"
    by auto
  from compare_attribute_first[OF assms(1), of height] obtain hh hl where
    h: "first_attaining height (Max (height ` set ?ps)) ?ps = Some hh"
       "first_attaining height (Min (height ` set ?ps)) ?ps = Some hl"
       "compare_attribute height ?ps = Inr \<lparr>highest = (name hh, height hh), lowest = (name hl, height hl)\<rparr>"
    by auto
  from compare_attribute_first[OF assms(1), of weight] obtain wh wl where
    w: "first_attaining weight (Max (weight ` set ?ps)) ?ps = Some wh"
       "first_attaining weight (Min (weight ` set ?ps)) ?ps = Some wl"
       "compare_attribute weight ?ps = Inr \<lparr>highest = (name wh, weight wh), lowest = (name wl, weight wl)\<rparr>"
    by auto
  define c where "c = \<lparr>cmp_stats = sts, cmp_types = compare_types ?ps,
      cmp_height = \<lparr>highest = (name hh, height hh), lowest = (name hl, height hl)\<rparr>,
      cmp_weight = \<lparr>highest = (name wh, weight wh), lowest = (name wl, weight wl)\<rparr>\<rparr>"
  have bc: "build_comparison ?ps = Inr c"
    using sts h(3) w(3) by (simp add: build_comparison_def e_bind_def c_def)
  have st: "\<exists>x hi lo.
          map_of (cmp_stats c) stat = Some x \<and>
          first_attaining (\<lambda>p. stat_value p stat)
            (Max ((\<lambda>p. stat_value p stat) ` set ?ps)) ?ps = Some hi \<and>
          highest x = (name hi, JInt (stat_value hi stat)) \<and>
          first_attaining (\<lambda>p. stat_value p stat)
            (Min ((\<lambda>p. stat_value p stat) ` set ?ps)) ?ps = Some lo \<and>
          lowest x = (name lo, JInt (stat_value lo stat))"
    if "stat \<in> set STAT_NAMES" for stat
  proof -
    from look that obtain y where y: "compare_stat ?ps stat = Inr (stat, y)" "map_of sts stat = Some y"
      by auto
    from compare_stat_first[OF assms, of stat] obtain hi lo where
      hl: "first_attaining (\<lambda>p. stat_value p stat) (Max ((\<lambda>p. stat_value p stat) ` set ?ps)) ?ps = Some hi"
        "first_attaining (\<lambda>p. stat_value p stat) (Min ((\<lambda>p. stat_value p stat) ` set ?ps)) ?ps = Some lo"
        "compare_stat ?ps stat = Inr (stat, \<lparr>highest = (name hi, JInt (stat_value hi stat)),
                              lowest = (name lo, JInt (stat_value lo stat))\<rparr>)"
      by auto
    from y(1) hl(3) have "y = \<lparr>highest = (name hi, JInt (stat_value hi stat)),
                              lowest = (name lo, JInt (stat_value lo stat))\<rparr>" by simp
    with y(2) hl(1,2) show ?thesis
      by (intro exI[of _ y] exI[of _ hi] exI[of _ lo]) (simp add: c_def)
  qed
  have hs: "\<exists>hi lo.
          first_attaining height (Max (height ` set ?ps)) ?ps = Some hi \<and>
          highest (cmp_height c) = (name hi, height hi) \<and>
          first_attaining height (Min (height ` set ?ps)) ?ps = Some lo \<and>
          lowest (cmp_height c) = (name lo, height lo)"
    using h(1,2) by (intro exI[of _ hh] exI[of _ hl]) (simp add: c_def)
  have ws: "\<exists>hi lo.
          first_attaining weight (Max (weight ` set ?ps)) ?ps = Some hi \<and>
          highest (cmp_weight c) = (name hi, weight hi) \<and>
          first_attaining weight (Min (weight ` set ?ps)) ?ps = Some lo \<and>
          lowest (cmp_weight c) = (name lo, weight lo)"
    using w(1,2) by (intro exI[of _ wh] exI[of _ wl]) (simp add: c_def)
  show ?thesis
    by (rule exI[of _ c]) (use bc st hs ws in \<open>intro conjI ballI; assumption?\<close>)
qed

text \<open>
  On three records where \<open>raichu\<close> and \<open>gengar\<close> tie for the highest speed, \<open>raichu\<close>,
  the earlier one, is reported, each with the value its record holds; no record has the
  statistic \<open>hp\<close>, all count as 0, and the first record is reported as highest and as
  lowest.
\<close>

theorem comparison_first_in_input_order_witness:
  "\<exists>c. build_comparison sample_trio = Inr c \<and>
       map_option highest (map_of (cmp_stats c) ''speed'') = Some (''raichu'', JInt 110) \<and>
       map_option lowest (map_of (cmp_stats c) ''speed'') = Some (''pikachu'', JInt 90) \<and>
       map_option highest (map_of (cmp_stats c) ''attack'') = Some (''raichu'', JInt 90) \<and>
       map_option lowest (map_of (cmp_stats c) ''attack'') = Some (''pikachu'', JInt 55) \<and>
       map_option highest (map_of (cmp_stats c) ''hp'') = Some (''pikachu'', JInt 0) \<and>
       map_option lowest (map_of (cmp_stats c) ''hp'') = Some (''pikachu'', JInt 0) \<and>
       highest (cmp_height c) = (''pikachu'', 4) \<and> lowest (cmp_weight c) = (''pikachu'', 60)"
proof -
  have ne: "sample_trio \<noteq> []" by (simp add: sample_trio_def)
  have ints: "\<forall>p\<in>set sample_trio. integer_stats p"
    by (simp add: sample_trio_def integer_stats_def with_stats_def sample_record_def)
  from comparison_first_in_input_order[OF ne ints] obtain c where
    bc: "build_comparison sample_trio = Inr c"
    and st: "\<forall>stat\<in>set STAT_NAMES. \<exists>x hi lo.
          map_of (cmp_stats c) stat = Some x \<and>
          first_attaining (\<lambda>p. stat_value p stat)
            (Max ((\<lambda>p. stat_value p stat) ` set sample_trio)) sample_trio = Some hi \<and>
          highest x = (name hi, JInt (stat_value hi stat)) \<and>
          first_attaining (\<lambda>p. stat_value p stat)
            (Min ((\<lambda>p. stat_value p stat) ` set sample_trio)) sample_trio = Some lo \<and>
          lowest x = (name lo, JInt (stat_value lo stat))"
    and hs: "\<exists>hi lo.
          first_attaining height (Max (height ` set sample_trio)) sample_trio = Some hi \<and>
          highest (cmp_height c) = (name hi, height hi) \<and>
          first_attaining height (Min (height ` set sample_trio)) sample_trio = Some lo \<and>
          lowest (cmp_height c) = (name lo, height lo)"
    and ws: "\<exists>hi lo.
          first_attaining weight (Max (weight ` set sample_trio)) sample_trio = Some hi \<and>
          highest (cmp_weight c) = (name hi, weight hi) \<and>
          first_attaining weight (Min (weight ` set sample_trio)) sample_trio = Some lo \<and>
          lowest (cmp_weight c) = (name lo, weight lo)"
    by blast
  have sp_max: "first_attaining (\<lambda>p. stat_value p ''speed'')
        (Max ((\<lambda>p. stat_value p ''speed'') ` set sample_trio)) sample_trio =
      Some (with_stats (sample_record 26 ''raichu'' 110 ''26.png'') 90 110)"
    by (simp add: first_attaining_def sample_trio_def stat_value_def with_stats_def sample_record_def)
  have sp_min: "first_attaining (\<lambda>p. stat_value p ''speed'')
        (Min ((\<lambda>p. stat_value p ''speed'') ` set sample_trio)) sample_trio =
      Some (with_stats (sample_record 25 ''pikachu'' 90 ''25.png'') 55 90)"
    by (simp add: first_attaining_def sample_trio_def stat_value_def with_stats_def sample_record_def)
  have "''speed'' \<in> set STAT_NAMES" by (simp add: STAT_NAMES_def)
  with st obtain x_sp hi_sp lo_sp where
    sp: "map_of (cmp_stats c) ''speed'' = Some x_sp"
       "first_attaining (\<lambda>p. stat_value p ''speed'')
          (Max ((\<lambda>p. stat_value p ''speed'') ` set sample_trio)) sample_trio = Some hi_sp"
       "highest x_sp = (name hi_sp, JInt (stat_value hi_sp ''speed''))"
       "first_attaining (\<lambda>p. stat_value p ''speed'')
          (Min ((\<lambda>p. stat_value p ''speed'') ` set sample_trio)) sample_trio = Some lo_sp"
       "lowest x_sp = (name lo_sp, JInt (stat_value lo_sp ''speed''))"
    by metis
  from sp(2) sp_max have sp_hi: "hi_sp = with_stats (sample_record 26 ''raichu'' 110 ''26.png'') 90 110" by simp
  from sp(4) sp_min have sp_lo: "lo_sp = with_stats (sample_record 25 ''pikachu'' 90 ''25.png'') 55 90" by simp
  have sp_a: "map_option highest (map_of (cmp_stats c) ''speed'') = Some (''raichu'', JInt 110)"
    using sp(1,3) sp_hi by (simp add: stat_value_def with_stats_def sample_record_def)
  have sp_b: "map_option lowest (map_of (cmp_stats c) ''speed'') = Some (''pikachu'', JInt 90)"
    using sp(1,5) sp_lo by (simp add: stat_value_def with_stats_def sample_record_def)
  have at_max: "first_attaining (\<lambda>p. stat_value p ''attack'')
        (Max ((\<lambda>p. stat_value p ''attack'') ` set sample_trio)) sample_trio =
      Some (with_stats (sample_record 26 ''raichu'' 110 ''26.png'') 90 110)"
    by (simp add: first_attaining_def sample_trio_def stat_value_def with_stats_def sample_record_def)
  have at_min: "first_attaining (\<lambda>p. stat_value p ''attack'')
        (Min ((\<lambda>p. stat_value p ''attack'') ` set sample_trio)) sample_trio =
      Some (with_stats (sample_record 25 ''pikachu'' 90 ''25.png'') 55 90)"
    by (simp add: first_attaining_def sample_trio_def stat_value_def with_stats_def sample_record_def)
  have "''attack'' \<in> set STAT_NAMES" by (simp add: STAT_NAMES_def)
  with st obtain x_at hi_at lo_at where
    at: "map_of (cmp_stats c) ''attack'' = Some x_at"
       "first_attaining (\<lambda>p. stat_value p ''attack'')
          (Max ((\<lambda>p. stat_value p ''attack'') ` set sample_trio)) sample_trio = Some hi_at"
       "highest x_at = (name hi_at, JInt (stat_value hi_at ''attack''))"
       "first_attaining (\<lambda>p. stat_value p ''attack'')
          (Min ((\<lambda>p. stat_value p ''attack'') ` set sample_trio)) sample_trio = Some lo_at"
       "lowest x_at = (name lo_at, JInt (stat_value lo_at ''attack''))"
    by metis
  from at(2) at_max have at_hi: "hi_at = with_stats (sample_record 26 ''raichu'' 110 ''26.png'') 90 110" by simp
  from at(4) at_min have at_lo: "lo_at = with_stats (sample_record 25 ''pikachu'' 90 ''25.png'') 55 90" by simp
  have at_a: "map_option highest (map_of (cmp_stats c) ''attack'') = Some (''raichu'', JInt 90)"
    using at(1,3) at_hi by (simp add: stat_value_def with_stats_def sample_record_def)
  have at_b: "map_option lowest (map_of (cmp_stats c) ''attack'') = Some (''pikachu'', JInt 55)"
    using at(1,5) at_lo by (simp add: stat_value_def with_stats_def sample_record_def)
  have hp_max: "first_attaining (\<lambda>p. stat_value p ''hp'')
        (Max ((\<lambda>p. stat_value p ''hp'') ` set sample_trio)) sample_trio =
      Some (with_stats (sample_record 25 ''pikachu'' 90 ''25.png'') 55 90)"
    by (simp add: first_attaining_def sample_trio_def stat_value_def with_stats_def sample_record_def)
  have hp_min: "first_attaining (\<lambda>p. stat_value p ''hp'')
        (Min ((\<lambda>p. stat_value p ''hp'') ` set sample_trio)) sample_trio =
      Some (with_stats (sample_record 25 ''pikachu'' 90 ''25.png'') 55 90)"
    by (simp add: first_attaining_def sample_trio_def stat_value_def with_stats_def sample_record_def)
  have "''hp'' \<in> set STAT_NAMES" by (simp add: STAT_NAMES_def)
  with st obtain x_hp hi_hp lo_hp where
    hp: "map_of (cmp_stats c) ''hp'' = Some x_hp"
       "first_attaining (\<lambda>p. stat_value p ''hp'')
          (Max ((\<lambda>p. stat_value p ''hp'') ` set sample_trio)) sample_trio = Some hi_hp"
       "highest x_hp = (name hi_hp, JInt (stat_value hi_hp ''hp''))"
       "first_attaining (\<lambda>p. stat_value p ''hp'')
          (Min ((\<lambda>p. stat_value p ''hp'') ` set sample_trio)) sample_trio = Some lo_hp"
       "lowest x_hp = (name lo_hp, JInt (stat_value lo_hp ''hp''))"
    by metis
  from hp(2) hp_max have hp_hi: "hi_hp = with_stats (sample_record 25 ''pikachu'' 90 ''25.png'') 55 90" by simp
  from hp(4) hp_min have hp_lo: "lo_hp = with_stats (sample_record 25 ''pikachu'' 90 ''25.png'') 55 90" by simp
  have hp_a: "map_option highest (map_of (cmp_stats c) ''hp'') = Some (''pikachu'', JInt 0)"
    using hp(1,3) hp_hi by (simp add: stat_value_def with_stats_def sample_record_def)
  have hp_b: "map_option lowest (map_of (cmp_stats c) ''hp'') = Some (''pikachu'', JInt 0)"
    using hp(1,5) hp_lo by (simp add: stat_value_def with_stats_def sample_record_def)
  have h_max: "first_attaining height (Max (height ` set sample_trio)) sample_trio =
      Some (with_stats (sample_record 25 ''pikachu'' 90 ''25.png'') 55 90)"
    by (simp add: first_attaining_def sample_trio_def with_stats_def sample_record_def)
  have w_min: "first_attaining weight (Min (weight ` set sample_trio)) sample_trio =
      Some (with_stats (sample_record 25 ''pikachu'' 90 ''25.png'') 55 90)"
    by (simp add: first_attaining_def sample_trio_def with_stats_def sample_record_def)
  have a5: "highest (cmp_height c) = (''pikachu'', 4)"
    using hs h_max by (auto simp: with_stats_def sample_record_def)
  have a6: "lowest (cmp_weight c) = (''pikachu'', 60)"
    using ws w_min by (auto simp: with_stats_def sample_record_def)
  show ?thesis
    by (rule exI[of _ c]) (simp add: bc sp_a sp_b at_a at_b hp_a hp_b a5 a6)
qed

section \<open>The team store\<close>

lemma pop_first_length: "pop_first n t = Some t' \<Longrightarrow> length t = Suc (length t')"
  by (induction t arbitrary: t') (auto split: if_splits option.splits)

lemma capped_members: "capped s \<Longrightarrow> length (members s uid) \<le> 6"
  by (simp add: capped_def members_def split: option.splits)

lemma capped_update: "capped s \<Longrightarrow> length t \<le> 6 \<Longrightarrow> capped (s(uid \<mapsto> t))"
  by (simp add: capped_def)

lemma add_to_team_store:
  "snd (add_to_team e s uid requested) = s(uid \<mapsto> members s uid) \<or>
   (length (members s uid) < 6 \<and>
    (\<exists>p. snd (add_to_team e s uid requested) = s(uid \<mapsto> members s uid @ [p])))"
  by (auto simp: add_to_team_def members_def Let_def split: option.splits sum.splits)

lemma add_to_team_capped:
  assumes "capped s"
  shows "capped (snd (add_to_team e s uid requested))"
proof -
  have len: "length (members s uid) \<le> 6" using assms by (rule capped_members)
  from add_to_team_store[of e s uid requested] show ?thesis
  proof
    assume "snd (add_to_team e s uid requested) = s(uid \<mapsto> members s uid)"
    then show ?thesis using assms len by (simp add: capped_update)
  next
    assume "length (members s uid) < 6 \<and>
      (\<exists>p. snd (add_to_team e s uid requested) = s(uid \<mapsto> members s uid @ [p]))"
    then obtain p where "length (members s uid) < 6"
      "snd (add_to_team e s uid requested) = s(uid \<mapsto> members s uid @ [p])" by auto
    then show ?thesis using assms by (simp add: capped_update)
  qed
qed

lemma remove_from_team_store:
  "snd (remove_from_team s uid requested) = s \<or>
   (\<exists>t t'. s uid = Some t \<and> length t = Suc (length t') \<and>
      snd (remove_from_team s uid requested) = s(uid \<mapsto> t'))"
  by (auto simp: remove_from_team_def Let_def dest: pop_first_length split: option.splits)

lemma remove_from_team_capped:
  assumes "capped s"
  shows "capped (snd (remove_from_team s uid requested))"
proof -
  from remove_from_team_store[of s uid requested] show ?thesis
  proof
    assume "snd (remove_from_team s uid requested) = s"
    then show ?thesis using assms by simp
  next
    assume "\<exists>t t'. s uid = Some t \<and> length t = Suc (length t') \<and>
      snd (remove_from_team s uid requested) = s(uid \<mapsto> t')"
    then obtain t t' where t: "s uid = Some t" "length t = Suc (length t')"
      "snd (remove_from_team s uid requested) = s(uid \<mapsto> t')" by auto
    from assms t(1) have "length t \<le> 6" by (simp add: capped_def)
    with t(2) have "length t' \<le> 6" by simp
    with t(3) assms show ?thesis by (simp add: capped_update)
  qed
qed

lemma handle_capped: "capped s \<Longrightarrow> capped (handle e s r)"
  by (cases r) (simp_all add: add_to_team_capped remove_from_team_capped)

lemma serial_requests_capped: "capped s \<Longrightarrow> capped (foldl (handle e) s rs)"
  by (induction rs arbitrary: s) (simp_all add: handle_capped)

lemma add_to_team_phases:
  "add_to_team e s uid requested =
     (case add_check s uid requested of
        (Some x, s1) \<Rightarrow> (Inl x, s1)
      | (None, s1) \<Rightarrow> add_resume e s1 uid requested)"
  by (simp add: add_to_team_def add_check_def add_resume_def Let_def
      split: sum.splits option.splits)

lemma running_handle:
  assumes "running s ps"
  shows "running (handle e s r) ps"
proof (cases r)
  case (GetTeam uid)
  with assms show ?thesis by simp
next
  case (AddToTeam uid requested)
  obtain xo s1 where c: "add_check s uid requested = (xo, s1)"
    by (cases "add_check s uid requested") auto
  show ?thesis
  proof (cases xo)
    case (Some x)
    with c have "snd (add_to_team e s uid requested) = s1"
      by (simp add: add_to_team_phases)
    moreover from assms c Some have "running s1 ps"
      by (auto intro: running.refused)
    ultimately show ?thesis using AddToTeam by simp
  next
    case None
    with c have eq: "snd (add_to_team e s uid requested) = snd (add_resume e s1 uid requested)"
      by (simp add: add_to_team_phases)
    from assms c None have "running s1 ((uid, requested) # ps)"
      by (auto intro: running.suspended)
    then have "running (snd (add_resume e s1 uid requested))
        (remove1 (uid, requested) ((uid, requested) # ps))"
      by (rule running.resumed) simp
    then show ?thesis using AddToTeam eq by simp
  qed
next
  case (RemoveFromTeam uid requested)
  with assms show ?thesis by (simp add: running.removed)
qed

lemma running_foldl: "running s ps \<Longrightarrow> running (foldl (handle e) s rs) ps"
  by (induction rs arbitrary: s) (simp_all add: running_handle)

lemma reachable_start: "reachable Map.empty"
  unfolding reachable_def by (rule exI[of _ "[]"]) (rule running.start)

lemma reachable_foldl: "reachable s \<Longrightarrow> reachable (foldl (handle e) s rs)"
  unfolding reachable_def by (auto intro: running_foldl)

lemma add_to_full_team:
  "length (members s uid) \<ge> 6 \<Longrightarrow>
   fst (add_to_team e s uid requested) = Inl (HTTPException 400
     ''Team is already full (maximum 6 Pokemon). Remove a Pokemon before adding a new one.'')"
  by (simp add: add_to_team_def members_def Let_def)

lemma add_to_team_appends:
  assumes "get_pokemon_details e (JStr requested) = Inr (Some p)"
    and "length (members s uid) < 6"
    and "lower requested \<notin> set (map name (members s uid))"
  shows "snd (add_to_team e s uid requested) = s(uid \<mapsto> members s uid @ [p])"
  using assms by (simp add: add_to_team_def members_def Let_def)

lemma add_check_passes:
  assumes "length (members s uid) < 6"
    and "lower requested \<notin> set (map name (members s uid))"
  shows "add_check s uid requested = (None, s(uid \<mapsto> members s uid))"
  using assms by (simp add: add_check_def members_def Let_def)

lemma add_resume_appends:
  assumes "get_pokemon_details e (JStr requested) = Inr (Some p)"
  shows "snd (add_resume e (s(uid \<mapsto> t)) uid requested) = s(uid \<mapsto> t @ [p])"
  using assms by (simp add: add_resume_def)

lemma members_update: "members (s(uid \<mapsto> t)) uid = t"
  by (simp add: members_def)

lemma members_empty: "members Map.empty uid = []"
  by (simp add: members_def)

lemma sample_names: "name (sample_record i n sp u) = n"
  by (simp add: sample_record_def)

lemma five_store_members:
  "members five_store ''ash'' =
     [sample_record 25 ''pikachu'' 90 ''25.png'', sample_record 6 ''charizard'' 100 ''6.png'',
      sample_record 26 ''raichu'' 110 ''26.png'', sample_record 135 ''jolteon'' 130 ''135.png'',
      sample_record 95 ''onix'' 70 ''95.png'']"
proof -
  let ?e = sample_env
  define s1 where "s1 = handle ?e Map.empty (AddToTeam ''ash'' ''pikachu'')"
  define s2 where "s2 = handle ?e s1 (AddToTeam ''ash'' ''charizard'')"
  define s3 where "s3 = handle ?e s2 (AddToTeam ''ash'' ''raichu'')"
  define s4 where "s4 = handle ?e s3 (AddToTeam ''ash'' ''jolteon'')"
  define s5 where "s5 = handle ?e s4 (AddToTeam ''ash'' ''onix'')"
  have m1: "members s1 ''ash'' = [sample_record 25 ''pikachu'' 90 ''25.png'']"
    unfolding s1_def
    by (simp add: add_to_team_appends[OF sample_pikachu] members_empty members_update)
  have m2: "members s2 ''ash'' = members s1 ''ash'' @ [sample_record 6 ''charizard'' 100 ''6.png'']"
    unfolding s2_def
    by (simp add: add_to_team_appends[OF sample_charizard] m1 sample_names members_update
        lower_def lower_char_def)
  have m3: "members s3 ''ash'' = members s2 ''ash'' @ [sample_record 26 ''raichu'' 110 ''26.png'']"
    unfolding s3_def
    by (simp add: add_to_team_appends[OF sample_raichu] m1 m2 sample_names members_update
        lower_def lower_char_def)
  have m4: "members s4 ''ash'' = members s3 ''ash'' @ [sample_record 135 ''jolteon'' 130 ''135.png'']"
    unfolding s4_def
    by (simp add: add_to_team_appends[OF sample_jolteon] m1 m2 m3 sample_names members_update
        lower_def lower_char_def)
  have m5: "members s5 ''ash'' = members s4 ''ash'' @ [sample_record 95 ''onix'' 70 ''95.png'']"
    unfolding s5_def
    by (simp add: add_to_team_appends[OF sample_onix] m1 m2 m3 m4 sample_names members_update
        lower_def lower_char_def)
  have fs: "five_store = s5"
    by (simp add: five_store_def s1_def s2_def s3_def s4_def s5_def)
  show ?thesis unfolding fs by (simp add: m1 m2 m3 m4 m5)
qed

lemma full_store_members:
  "members full_store ''ash'' =
     [sample_record 25 ''pikachu'' 90 ''25.png'', sample_record 6 ''charizard'' 100 ''6.png'',
      sample_record 26 ''raichu'' 110 ''26.png'', sample_record 135 ''jolteon'' 130 ''135.png'',
      sample_record 95 ''onix'' 70 ''95.png'', sample_record 94 ''gengar'' 110 ''94.png'']"
proof -
  have fs: "full_store = handle sample_env five_store (AddToTeam ''ash'' ''gengar'')"
    by (simp add: full_store_def sample_requests_def five_store_def)
  show ?thesis unfolding fs
    by (simp add: add_to_team_appends[OF sample_gengar] five_store_members sample_names
        members_update lower_def lower_char_def)
qed

text \<open>
  Claim C8 says that every reachable store keeps every team at 6 members or fewer. The
  size check of \<open>add_to_team\<close> comes before its await and the append after it. On the
  sample upstream, with a team of five, an add of \<open>gengar\<close> and an add of \<open>mewtwo\<close> both
  pass the check while the team has five members, and both append when they resume: the
  server reaches a store where the team has seven members.
\<close>

theorem seven_members_by_overlapping_adds:
  "length (members five_store ''ash'') = 5 \<and>
   fst (add_check five_store ''ash'' ''gengar'') = None \<and>
   fst (add_check (snd (add_check five_store ''ash'' ''gengar'')) ''ash'' ''mewtwo'') = None \<and>
   running overlapped_store [] \<and> reachable overlapped_store \<and>
   map name (members overlapped_store ''ash'') =
     [''pikachu'', ''charizard'', ''raichu'', ''jolteon'', ''onix'', ''gengar'', ''mewtwo'']"
proof -
  let ?five = "members five_store ''ash''"
  define s1 where "s1 = snd (add_check five_store ''ash'' ''gengar'')"
  define s2 where "s2 = snd (add_check s1 ''ash'' ''mewtwo'')"
  define s3 where "s3 = snd (add_resume sample_env s2 ''ash'' ''gengar'')"
  define s4 where "s4 = snd (add_resume sample_env s3 ''ash'' ''mewtwo'')"
  have c1: "add_check five_store ''ash'' ''gengar'' = (None, five_store(''ash'' \<mapsto> ?five))"
    by (rule add_check_passes)
      (simp_all add: five_store_members sample_names lower_def lower_char_def)
  then have e1: "s1 = five_store(''ash'' \<mapsto> ?five)" by (simp add: s1_def)
  have c2: "add_check s1 ''ash'' ''mewtwo'' = (None, s1(''ash'' \<mapsto> members s1 ''ash''))"
    by (rule add_check_passes)
      (simp_all add: e1 members_update five_store_members sample_names lower_def lower_char_def)
  then have e2: "s2 = five_store(''ash'' \<mapsto> ?five)"
    by (simp add: s2_def e1 members_update)
  have e3: "s3 = five_store(''ash'' \<mapsto> ?five @ [sample_record 94 ''gengar'' 110 ''94.png''])"
    unfolding s3_def e2 by (simp add: add_resume_appends[OF sample_gengar])
  have e4: "s4 = five_store(''ash'' \<mapsto> (?five @ [sample_record 94 ''gengar'' 110 ''94.png'']) @
      [sample_record 150 ''mewtwo'' 130 ''150.png''])"
    unfolding s4_def e3 by (simp add: add_resume_appends[OF sample_mewtwo])
  have o: "overlapped_store = s4"
    by (simp add: overlapped_store_def Let_def s1_def s2_def s3_def s4_def)
  have r0: "running five_store []"
    unfolding five_store_def by (rule running_foldl) (rule running.start)
  have r1: "running s1 [(''ash'', ''gengar'')]"
    using running.suspended[OF r0, of "''ash''" "''gengar''"] c1 by (simp add: e1)
  have r2: "running s2 [(''ash'', ''mewtwo''), (''ash'', ''gengar'')]"
    using running.suspended[OF r1, of "''ash''" "''mewtwo''"] c2 by (simp add: s2_def)
  have r3: "running s3 [(''ash'', ''mewtwo'')]"
    using running.resumed[OF r2, of "''ash''" "''gengar''" sample_env] by (simp add: s3_def)
  have r4: "running s4 []"
    using running.resumed[OF r3, of "''ash''" "''mewtwo''" sample_env] by (simp add: s4_def)
  have r: "running overlapped_store []" using r4 o by simp
  then have "reachable overlapped_store" unfolding reachable_def by (rule exI)
  moreover have "map name (members overlapped_store ''ash'') =
      [''pikachu'', ''charizard'', ''raichu'', ''jolteon'', ''onix'', ''gengar'', ''mewtwo'']"
    by (simp add: o e4 members_update five_store_members sample_names)
  moreover have "fst (add_check (snd (add_check five_store ''ash'' ''gengar'')) ''ash'' ''mewtwo'') =
      None"
    using c2 by (simp add: s1_def)
  ultimately show ?thesis using r c1 by (simp add: five_store_members)
qed

text \<open>
  Claim C7. An add fails when the team has 6 members, when the lower-cased requested name
  is the name of a member, and when the hydrator returns \<^verbatim>\<open>None\<close> for the name; and
  whenever an add fails, for these or any other reason, every user's team is the list it
  was before the call: the dict changes at most by an empty list stored for a user who had
  no entry.
\<close>

theorem failed_add_keeps_team:
  "(length (members s uid) \<ge> 6 \<or> lower requested \<in> set (map name (members s uid)) \<or>
    get_pokemon_details e (JStr requested) = Inr None \<longrightarrow>
      (\<exists>x. fst (add_to_team e s uid requested) = Inl x)) \<and>
   ((\<exists>x. fst (add_to_team e s uid requested) = Inl x) \<longrightarrow>
      snd (add_to_team e s uid requested) = s(uid \<mapsto> members s uid) \<and>
      (\<forall>u. members (snd (add_to_team e s uid requested)) u = members s u))"
  by (auto simp: add_to_team_def members_def Let_def split: option.splits sum.splits if_splits)

text \<open>
  The three failures on the sample upstream: a seventh member, a member asked for again
  in another case, and a name the provider does not know.
\<close>

theorem failed_add_keeps_team_witness:
  "members (snd (add_to_team sample_env full_store ''ash'' ''mewtwo'')) ''ash'' =
     members full_store ''ash'' \<and>
   members (snd (add_to_team sample_env [''ash'' \<mapsto> [sample_record 25 ''pikachu'' 90 ''25.png'']]
                   ''ash'' ''Pikachu'')) ''ash'' = [sample_record 25 ''pikachu'' 90 ''25.png''] \<and>
   members (snd (add_to_team sample_env Map.empty ''misty'' ''nobody'')) ''misty'' = []"
proof -
  let ?one = "[''ash'' \<mapsto> [sample_record 25 ''pikachu'' 90 ''25.png'']]"
  have a: "length (members full_store ''ash'') \<ge> 6"
    by (simp add: full_store_members)
  have b: "lower ''Pikachu'' \<in> set (map name (members ?one ''ash''))"
    by (simp add: members_def sample_names lower_def lower_char_def)
  have c: "get_pokemon_details sample_env (JStr ''nobody'') = Inr None"
    by (rule sample_nobody)
  have "members (snd (add_to_team sample_env full_store ''ash'' ''mewtwo'')) ''ash'' =
      members full_store ''ash''"
    using failed_add_keeps_team[of full_store "''ash''" "''mewtwo''" sample_env] a by blast
  moreover have "members (snd (add_to_team sample_env ?one ''ash'' ''Pikachu'')) ''ash'' =
      members ?one ''ash''"
    using failed_add_keeps_team[of ?one "''ash''" "''Pikachu''" sample_env] b by blast
  moreover have "members (snd (add_to_team sample_env Map.empty ''misty'' ''nobody'')) ''misty'' =
      members Map.empty ''misty''"
    using failed_add_keeps_team[of Map.empty "''misty''" "''nobody''" sample_env] c by blast
  ultimately show ?thesis by (simp add: members_def)
qed

text \<open>
  Claim C6 says that no two members of a team share a lower-case name, also when the
  caller gives a numeric identifier. The check before the hydration compares the requested
  string with the names of the members: after \<open>pikachu\<close>, the request \<open>25\<close> passes the
  check, resolves to the record named \<open>pikachu\<close>, and is appended.
\<close>

theorem duplicate_member_by_identifier:
  "reachable (foldl (handle sample_env) Map.empty
      [AddToTeam ''ash'' ''pikachu'', AddToTeam ''ash'' ''25'']) \<and>
   map name (members (foldl (handle sample_env) Map.empty
      [AddToTeam ''ash'' ''pikachu'', AddToTeam ''ash'' ''25'']) ''ash'') =
     [''pikachu'', ''pikachu''] \<and>
   map id' (members (foldl (handle sample_env) Map.empty
      [AddToTeam ''ash'' ''pikachu'', AddToTeam ''ash'' ''25'']) ''ash'') = [25, 25]"
proof -
  define s1 where "s1 = handle sample_env Map.empty (AddToTeam ''ash'' ''pikachu'')"
  define s2 where "s2 = handle sample_env s1 (AddToTeam ''ash'' ''25'')"
  have m1: "members s1 ''ash'' = [sample_record 25 ''pikachu'' 90 ''25.png'']"
    unfolding s1_def
    by (simp add: add_to_team_appends[OF sample_pikachu] members_empty members_update)
  have m2: "members s2 ''ash'' = members s1 ''ash'' @ [sample_record 25 ''pikachu'' 90 ''25.png'']"
    unfolding s2_def
    by (simp add: add_to_team_appends[OF sample_25] m1 sample_names members_update
        lower_def lower_char_def)
  have fs: "foldl (handle sample_env) Map.empty
      [AddToTeam ''ash'' ''pikachu'', AddToTeam ''ash'' ''25''] = s2"
    by (simp add: s1_def s2_def)
  have "reachable (foldl (handle sample_env) Map.empty
      [AddToTeam ''ash'' ''pikachu'', AddToTeam ''ash'' ''25''])"
    by (rule reachable_foldl) (rule reachable_start)
  then show ?thesis unfolding fs by (simp add: m1 m2 sample_record_def)
qed

end
